theory Spec2Isabelle
  imports Main
begin

section \<open>Errors raised by the providers\<close>

text \<open>
  Modelled from the spec: the class \<open>PaymentError\<close> and the enum \<open>PaymentErrorType\<close>
  live in \<open>payment-error.ts\<close>, which is not among the sources. The spec (section 7) only
  says that an unsupported operation is "raised as a distinguishable error condition".
  The model keeps what the call sites pass to the constructor: a message and an optional
  tag, the tags being the four the providers name.
\<close>

datatype PaymentErrorType =
    UNSUPPORTED_PAYMENT_METHOD
  | UNKNOWN_ERROR
  | INVALID_AUTHORIZATION_CODE
  | INVALID_PHONE_NUMBER

datatype error =
    PaymentError string "PaymentErrorType option"
  | TypeError
  | SyntaxError
  | StripeSignatureVerificationError

section \<open>The Stripe provider: operations it does not support\<close>

text \<open>
  \<open>checkoutMobileMoney\<close>, \<open>checkoutCreditCard\<close> and \<open>payoutMobileMoney\<close> of
  \<open>StripePaymentProvider\<close> consist of one \<open>throw\<close> statement; the options are never
  read, so the model is polymorphic in them. The first two are \<open>async\<close> (the error
  rejects the returned promise), the third throws before returning a promise; both are
  the \<open>Inl\<close> of the result.
\<close>

definition checkoutMobileMoney :: "'options \<Rightarrow> error + 'result" where
  "checkoutMobileMoney options =
     Inl (PaymentError ''Stripe does not support mobile money payments''
            (Some UNSUPPORTED_PAYMENT_METHOD))"

definition checkoutCreditCard :: "'options \<Rightarrow> error + 'result" where
  "checkoutCreditCard options =
     Inl (PaymentError
            ''Stripe does not support credit card payments. Use credit card tokens instead''
            (Some UNSUPPORTED_PAYMENT_METHOD))"

definition payoutMobileMoney :: "'options \<Rightarrow> error + 'result" where
  "payoutMobileMoney options =
     Inl (PaymentError ''Stripe does not support mobile money payouts''
            (Some UNSUPPORTED_PAYMENT_METHOD))"

section \<open>JavaScript values\<close>

text \<open>
  The Paydunya webhook body reaches \<open>handleWebhook\<close> as the object the HTTP layer parsed,
  so its fields are JavaScript values of any JSON shape. Objects are association lists
  in which the first binding of a key is the property's value. Strings are lists of 8-bit
  code units.

  Numbers are kept as exact decimals: \<open>Fin neg m e\<close> is \<open>m \<times> 10\<^sup>e\<close>, negated when \<open>neg\<close>
  holds, so that \<open>Fin True 0 0\<close> is the negative zero. Rounding to binary64 and overflow to
  an infinity are not modelled; on the integers of magnitude below \<open>2\<^sup>5\<^sup>3\<close> the model and
  JavaScript agree.
\<close>

datatype jsnum = NaN | PInfinity | NInfinity | Fin bool nat int

datatype jsval =
    JUndefined
  | JNull
  | JBool bool
  | JNum jsnum
  | JStr string
  | JArr "jsval list"
  | JObj "(string \<times> jsval) list"

definition bindE :: "error + 'a \<Rightarrow> ('a \<Rightarrow> error + 'b) \<Rightarrow> error + 'b" where
  "bindE m f = (case m of Inl e \<Rightarrow> Inl e | Inr v \<Rightarrow> f v)"

subsection \<open>Decimal digits\<close>

definition is_digit :: "char \<Rightarrow> bool" where
  "is_digit c = (48 \<le> (of_char c :: nat) \<and> (of_char c :: nat) \<le> 57)"

definition digit_val :: "char \<Rightarrow> nat" where
  "digit_val c = of_char c - 48"

definition digits_val :: "string \<Rightarrow> nat" where
  "digits_val ds = foldl (\<lambda>a c. 10 * a + digit_val c) 0 ds"

definition digit_char :: "nat \<Rightarrow> char" where
  "digit_char d = char_of (48 + d)"

fun decimal_digits :: "nat \<Rightarrow> string" where
  "decimal_digits n =
     (if n < 10 then [digit_char n] else decimal_digits (n div 10) @ [digit_char (n mod 10)])"

declare decimal_digits.simps [simp del]

text \<open>The canonical form of a finite number has no trailing zero in its mantissa.\<close>

function strip_zeros :: "nat \<Rightarrow> int \<Rightarrow> nat \<times> int" where
  "strip_zeros m e =
     (if m = 0 then (0, 0)
      else if m mod 10 = 0 then strip_zeros (m div 10) (e + 1)
      else (m, e))"
  by pat_completeness auto
termination
  by (relation "measure (\<lambda>(m, e). m)") auto

declare strip_zeros.simps [simp del]

definition mk_fin :: "bool \<Rightarrow> nat \<Rightarrow> int \<Rightarrow> jsnum" where
  "mk_fin neg m e = (case strip_zeros m e of (m', e') \<Rightarrow> Fin neg m' e')"

subsection \<open>\<open>Number::toString\<close> and \<open>StringToNumber\<close>\<close>

text \<open>
  \<open>Number::toString\<close> in radix 10, as ECMAScript lays it out: with \<open>s\<close> the digits of the
  mantissa, \<open>k\<close> their count and \<open>n = k + e\<close>, the five layouts chosen by \<open>n\<close>.
\<close>

definition Number_toString :: "jsnum \<Rightarrow> string" where
  "Number_toString x =
     (case x of
        NaN \<Rightarrow> ''NaN''
      | PInfinity \<Rightarrow> ''Infinity''
      | NInfinity \<Rightarrow> ''-Infinity''
      | Fin neg m0 e0 \<Rightarrow>
          (case strip_zeros m0 e0 of
             (m, e) \<Rightarrow>
               if m = 0 then ''0''
               else
                 (if neg then ''-'' else []) @
                 (let s = decimal_digits m; k = int (length s); n = k + e in
                  if k \<le> n \<and> n \<le> 21 then s @ replicate (nat (n - k)) (CHR ''0'')
                  else if 0 < n \<and> n \<le> 21 then take (nat n) s @ ''.'' @ drop (nat n) s
                  else if - 6 < n \<and> n \<le> 0 then ''0.'' @ replicate (nat (- n)) (CHR ''0'') @ s
                  else
                    (let ex = (if n - 1 < 0 then ''-'' else ''+'') @ decimal_digits (nat \<bar>n - 1\<bar>)
                     in if k = 1 then s @ ''e'' @ ex
                        else take 1 s @ ''.'' @ drop 1 s @ ''e'' @ ex))))"

definition is_ws :: "char \<Rightarrow> bool" where
  "is_ws c = ((of_char c :: nat) \<in> {9, 10, 11, 12, 13, 32, 160})"

definition trim :: "string \<Rightarrow> string" where
  "trim s = rev (dropWhile is_ws (rev (dropWhile is_ws s)))"

definition all_digits :: "string \<Rightarrow> bool" where
  "all_digits ds = (ds \<noteq> [] \<and> list_all is_digit ds)"

definition signed_digits :: "string \<Rightarrow> int option" where
  "signed_digits t =
     (case t of
        [] \<Rightarrow> None
      | c # ds \<Rightarrow>
          if c = CHR ''+'' then (if all_digits ds then Some (int (digits_val ds)) else None)
          else if c = CHR ''-'' then (if all_digits ds then Some (- int (digits_val ds)) else None)
          else if all_digits t then Some (int (digits_val t)) else None)"

definition exponent_part :: "string \<Rightarrow> int option" where
  "exponent_part r =
     (case r of
        [] \<Rightarrow> Some 0
      | c # t \<Rightarrow> if c = CHR ''e'' \<or> c = CHR ''E'' then signed_digits t else None)"

definition StrUnsignedDecimalLiteral :: "bool \<Rightarrow> string \<Rightarrow> jsnum" where
  "StrUnsignedDecimalLiteral neg u =
     (if u = ''Infinity'' then (if neg then NInfinity else PInfinity)
      else
        (let ip = takeWhile is_digit u;
             r1 = dropWhile is_digit u;
             fp = (case r1 of [] \<Rightarrow> [] | c # t \<Rightarrow> if c = CHR ''.'' then takeWhile is_digit t else []);
             r2 = (case r1 of [] \<Rightarrow> [] | c # t \<Rightarrow> if c = CHR ''.'' then dropWhile is_digit t else r1)
         in if ip = [] \<and> fp = [] then NaN
            else (case exponent_part r2 of
                    None \<Rightarrow> NaN
                  | Some x \<Rightarrow> mk_fin neg (digits_val (ip @ fp)) (x - int (length fp)))))"

definition radix_digit :: "nat \<Rightarrow> char \<Rightarrow> nat option" where
  "radix_digit b c =
     (let n = (of_char c :: nat);
          d = (if 48 \<le> n \<and> n \<le> 57 then n - 48
               else if 97 \<le> n \<and> n \<le> 102 then n - 87
               else if 65 \<le> n \<and> n \<le> 70 then n - 55
               else 16)
      in if d < b then Some d else None)"

definition NonDecimalIntegerLiteral :: "nat \<Rightarrow> string \<Rightarrow> jsnum" where
  "NonDecimalIntegerLiteral b ds =
     (if ds \<noteq> [] \<and> list_all (\<lambda>c. radix_digit b c \<noteq> None) ds
      then mk_fin False (foldl (\<lambda>a c. b * a + (case radix_digit b c of None \<Rightarrow> 0 | Some d \<Rightarrow> d)) 0 ds) 0
      else NaN)"

definition StringToNumber :: "string \<Rightarrow> jsnum" where
  "StringToNumber str =
     (let t = trim str in
      case t of
        [] \<Rightarrow> Fin False 0 0
      | c # u \<Rightarrow>
          if c = CHR ''+'' then StrUnsignedDecimalLiteral False u
          else if c = CHR ''-'' then StrUnsignedDecimalLiteral True u
          else if c = CHR ''0'' \<and> u \<noteq> [] \<and> hd u \<in> {CHR ''x'', CHR ''X''}
            then NonDecimalIntegerLiteral 16 (tl u)
          else if c = CHR ''0'' \<and> u \<noteq> [] \<and> hd u \<in> {CHR ''o'', CHR ''O''}
            then NonDecimalIntegerLiteral 8 (tl u)
          else if c = CHR ''0'' \<and> u \<noteq> [] \<and> hd u \<in> {CHR ''b'', CHR ''B''}
            then NonDecimalIntegerLiteral 2 (tl u)
          else StrUnsignedDecimalLiteral False t)"

subsection \<open>Property access, truthiness and conversions\<close>

text \<open>
  \<open>get v k\<close> is the member expression \<open>v.k\<close>: a \<open>TypeError\<close> on \<open>undefined\<close> and \<open>null\<close>,
  the own property of an object, and \<open>undefined\<close> otherwise. The handlers read only the
  names \<open>hash\<close>, \<open>customer\<close>, \<open>payment_method\<close>, \<open>status\<close>, \<open>response_code\<close>,
  \<open>response_text\<close>, \<open>invoice\<close>, \<open>total_amount\<close>, \<open>token\<close>, \<open>custom_data\<close> and
  \<open>transaction_id\<close>, none of which a prototype of a JSON value defines.
\<close>

definition own_property :: "(string \<times> jsval) list \<Rightarrow> string \<Rightarrow> jsval" where
  "own_property kvs k = (case map_of kvs k of None \<Rightarrow> JUndefined | Some v \<Rightarrow> v)"

fun get :: "jsval \<Rightarrow> string \<Rightarrow> error + jsval" where
  "get JUndefined k = Inl TypeError"
| "get JNull k = Inl TypeError"
| "get (JObj kvs) k = Inr (own_property kvs k)"
| "get v k = Inr JUndefined"

definition is_zero :: "jsnum \<Rightarrow> bool" where
  "is_zero n = (case n of Fin neg m e \<Rightarrow> m = 0 | _ \<Rightarrow> False)"

text \<open>\<open>ToBoolean\<close>, which \<open>!v\<close> negates.\<close>

fun truthy :: "jsval \<Rightarrow> bool" where
  "truthy JUndefined = False"
| "truthy JNull = False"
| "truthy (JBool b) = b"
| "truthy (JNum n) = (n \<noteq> NaN \<and> \<not> is_zero n)"
| "truthy (JStr s) = (s \<noteq> [])"
| "truthy (JArr xs) = True"
| "truthy (JObj kvs) = True"

text \<open>
  \<open>ToString\<close>. An array joins its elements with commas, \<open>undefined\<close> and \<open>null\<close> elements
  giving the empty string. A plain object gives \<open>[object Object]\<close>, unless it has an own
  property \<open>toString\<close>: a JSON value is never callable, so the own property hides
  \<open>Object.prototype.toString\<close>, \<open>valueOf\<close> returns no primitive, and \<open>OrdinaryToPrimitive\<close>
  ends in a \<open>TypeError\<close>. The same holds with the hint \<open>number\<close>, so \<open>ToPrimitive\<close> of an
  array or an object is its \<open>ToString\<close> under every hint.
\<close>

fun ToString :: "jsval \<Rightarrow> error + string"
  and join_elements :: "jsval list \<Rightarrow> error + string"
where
  "ToString JUndefined = Inr ''undefined''"
| "ToString JNull = Inr ''null''"
| "ToString (JBool b) = Inr (if b then ''true'' else ''false'')"
| "ToString (JNum n) = Inr (Number_toString n)"
| "ToString (JStr s) = Inr s"
| "ToString (JArr xs) = join_elements xs"
| "ToString (JObj kvs) =
     (if ''toString'' \<in> fst ` set kvs then Inl TypeError else Inr ''[object Object]'')"
| "join_elements [] = Inr []"
| "join_elements (x # xs) =
     (case (if x = JUndefined \<or> x = JNull then Inr [] else ToString x) of
        Inl e \<Rightarrow> Inl e
      | Inr a \<Rightarrow>
          (if xs = [] then Inr a
           else case join_elements xs of Inl e \<Rightarrow> Inl e | Inr b \<Rightarrow> Inr (a @ '','' @ b)))"

fun ToPrimitive :: "jsval \<Rightarrow> error + jsval" where
  "ToPrimitive (JArr xs) = bindE (ToString (JArr xs)) (\<lambda>s. Inr (JStr s))"
| "ToPrimitive (JObj kvs) = bindE (ToString (JObj kvs)) (\<lambda>s. Inr (JStr s))"
| "ToPrimitive v = Inr v"

fun ToNumber_primitive :: "jsval \<Rightarrow> jsnum" where
  "ToNumber_primitive JNull = Fin False 0 0"
| "ToNumber_primitive (JBool b) = Fin False (if b then 1 else 0) 0"
| "ToNumber_primitive (JNum n) = n"
| "ToNumber_primitive (JStr s) = StringToNumber s"
| "ToNumber_primitive v = NaN"

text \<open>\<open>Number(v)\<close> called as a function is \<open>ToNumber\<close> (no JSON value is a BigInt).\<close>

definition Number :: "jsval \<Rightarrow> error + jsnum" where
  "Number v = bindE (ToPrimitive v) (\<lambda>p. Inr (ToNumber_primitive p))"

definition num_eq :: "jsnum \<Rightarrow> jsnum \<Rightarrow> bool" where
  "num_eq a b =
     (case (a, b) of
        (Fin n1 m1 e1, Fin n2 m2 e2) \<Rightarrow>
          strip_zeros m1 e1 = strip_zeros m2 e2 \<and> (n1 = n2 \<or> m1 = 0)
      | (PInfinity, PInfinity) \<Rightarrow> True
      | (NInfinity, NInfinity) \<Rightarrow> True
      | _ \<Rightarrow> False)"

text \<open>
  \<open>v == s\<close> for a string \<open>s\<close> (\<open>IsLooselyEqual\<close>): strings compare as strings, numbers
  and booleans compare with the number \<open>s\<close> denotes, \<open>undefined\<close> and \<open>null\<close> equal no
  string, arrays and objects compare through their primitive.
\<close>

definition loose_eq_string :: "jsval \<Rightarrow> string \<Rightarrow> error + bool" where
  "loose_eq_string v s =
     bindE (ToPrimitive v)
       (\<lambda>p. Inr (case p of
                    JStr a \<Rightarrow> a = s
                  | JNum n \<Rightarrow> num_eq n (StringToNumber s)
                  | JBool b \<Rightarrow> num_eq (ToNumber_primitive (JBool b)) (StringToNumber s)
                  | _ \<Rightarrow> False))"

section \<open>Canonical events and the emitter\<close>

datatype PaymentMethod = WAVE | ORANGE_MONEY | CREDIT_CARD

datatype PaymentEventType =
    PAYMENT_INITIATED
  | PAYMENT_SUCCESSFUL
  | PAYMENT_FAILED
  | PAYMENT_CANCELLED

text \<open>
  One record for the four event shapes of \<open>payment-events.ts\<close>. A field the object
  literal does not write is \<open>None\<close> (\<open>reason\<close>, \<open>paymentProvider\<close>); \<open>paymentMethod\<close> is
  \<open>None\<close> for \<open>null\<close>. The fields that the Paydunya handler copies from the body unchecked
  hold whatever JavaScript value the body had there.
\<close>

record PaymentEvent =
  type :: PaymentEventType
  paymentMethod :: "PaymentMethod option"
  transactionAmount :: jsnum
  transactionCurrency :: jsval
  transactionId :: jsval
  transactionReference :: jsval
  metadata :: jsval
  reason :: "jsval option"
  paymentProvider :: "string option"

text \<open>
  The emitter is an object of the host application; a provider holds a reference to it
  once \<open>useEventEmitter\<close> has run. \<open>this.eventEmitter?.emit(name, event)\<close> publishes the
  pair when the reference is set and does nothing otherwise. What the subscribers do with
  an event is outside the providers.
\<close>

datatype EventEmitter2 = EventEmitter2 nat

definition emit ::
  "EventEmitter2 option \<Rightarrow> PaymentEventType \<Rightarrow> PaymentEvent \<Rightarrow> (PaymentEventType \<times> PaymentEvent) list"
where
  "emit em name ev = (case em of None \<Rightarrow> [] | Some e \<Rightarrow> [(name, ev)])"

text \<open>
  What one call of a handler does: the value it returns (or the error it throws), the
  events it published, in order, and the lines it wrote to the console.
\<close>

record 'r outcome =
  result :: "error + 'r"
  emitted :: "(PaymentEventType \<times> PaymentEvent) list"
  logged :: "string list"

definition thrown :: "error \<Rightarrow> 'r outcome" where
  "thrown e = \<lparr>result = Inl e, emitted = [], logged = []\<rparr>"

definition attempt :: "error + 'a \<Rightarrow> ('a \<Rightarrow> 'r outcome) \<Rightarrow> 'r outcome" where
  "attempt m k = (case m of Inl e \<Rightarrow> thrown e | Inr v \<Rightarrow> k v)"

section \<open>The Paydunya provider\<close>

record PaydunyaPaymentProviderConfig =
  masterKey :: string
  privateKey :: string
  publicKey :: string
  token :: string
  mode :: string
  store_name :: string

record PaydunyaPaymentProvider =
  config :: PaydunyaPaymentProviderConfig
  eventEmitter :: "EventEmitter2 option"
  masterKeySha512Hash :: string

text \<open>
  The constructor. \<open>createHash("sha512")\<close>, \<open>update\<close> and \<open>digest("hex")\<close> belong to the
  \<open>crypto\<close> module of the platform: the digest is the parameter \<open>sha512_hex\<close>. Next to
  the new provider the model returns the messages the constructor had digested, in order.
  The HTTP client of the provider serves \<open>checkout\<close> only and is left out.
\<close>

definition new_PaydunyaPaymentProvider ::
  "(string \<Rightarrow> string) \<Rightarrow> PaydunyaPaymentProviderConfig \<Rightarrow> PaydunyaPaymentProvider \<times> string list"
where
  "new_PaydunyaPaymentProvider sha512_hex cfg =
     (\<lparr>config = cfg, eventEmitter = None, masterKeySha512Hash = sha512_hex (masterKey cfg)\<rparr>,
      [masterKey cfg])"

definition useEventEmitter :: "EventEmitter2 \<Rightarrow> PaydunyaPaymentProvider \<Rightarrow> PaydunyaPaymentProvider" where
  "useEventEmitter em p = p\<lparr>eventEmitter := Some em\<rparr>"

text \<open>
  The object literal of an event of \<open>handleWebhook\<close>: its properties are evaluated in the
  order written, and the first member expression on an absent \<open>invoice\<close> or \<open>custom_data\<close>
  throws before anything is published. \<open>with_reason\<close> tells the cancelled and failed
  literals, which end in \<open>reason: body.response_text\<close>, from the successful one.
\<close>

definition webhook_event ::
  "PaymentEventType \<Rightarrow> PaymentMethod option \<Rightarrow> bool \<Rightarrow> (string \<times> jsval) list \<Rightarrow> error + PaymentEvent"
where
  "webhook_event t pm with_reason body =
     bindE (get (own_property body ''invoice'') ''total_amount'') (\<lambda>total_amount.
     bindE (Number total_amount) (\<lambda>amount.
     bindE (get (own_property body ''custom_data'') ''transaction_id'') (\<lambda>transaction_id.
     bindE (get (own_property body ''invoice'') ''token'') (\<lambda>invoice_token.
       Inr \<lparr>type = t,
            paymentMethod = pm,
            transactionAmount = amount,
            transactionCurrency = JStr ''XOF'',
            transactionId = transaction_id,
            transactionReference = invoice_token,
            metadata = own_property body ''custom_data'',
            reason = (if with_reason then Some (own_property body ''response_text'') else None),
            paymentProvider = None\<rparr>))))"

text \<open>
  The test \<open>body.status === "completed" && body.response_code == "00"\<close>: the second
  operand, a loose equality, is evaluated only when the first holds.
\<close>

definition completed_with_code_00 :: "(string \<times> jsval) list \<Rightarrow> error + bool" where
  "completed_with_code_00 body =
     (if own_property body ''status'' = JStr ''completed''
      then loose_eq_string (own_property body ''response_code'') ''00''
      else Inr False)"

fun nullish :: "jsval \<Rightarrow> bool" where
  "nullish JUndefined = True"
| "nullish JNull = True"
| "nullish v = False"


text \<open>
  \<open>handleWebhook\<close> of \<open>paydunya.ts\<close>. The body is an object (the interface has
  \<open>Record<string, unknown>\<close>), given by its properties; what each property holds is
  checked by nothing before the handler runs. The handler is declared \<open>Promise<void>\<close>
  and has no \<open>return\<close> with a value: the result is \<open>()\<close> on every path that does not
  throw. A \<open>TypeError\<close> rejects the promise.
\<close>

definition handleWebhook ::
  "PaydunyaPaymentProvider \<Rightarrow> (string \<times> jsval) list \<Rightarrow> unit outcome"
where
  "handleWebhook p body =
     (if \<not> truthy (own_property body ''hash'') then
        \<lparr>result = Inr (), emitted = [],
         logged = [''Missing hash in Paydunya webhook body'']\<rparr>
      else if own_property body ''hash'' \<noteq> JStr (masterKeySha512Hash p) then
        \<lparr>result = Inr (), emitted = [],
         logged = [''Invalid hash in Paydunya webhook body'']\<rparr>
      else
        attempt (get (own_property body ''customer'') ''payment_method'') (\<lambda>payment_method.
        let paymentMethod =
              (if payment_method = JStr ''wave_senegal'' then Some WAVE
               else if payment_method = JStr ''orange_money_senegal'' then Some ORANGE_MONEY
               else None)
        in
        attempt (completed_with_code_00 body) (\<lambda>completed.
        if completed then
          attempt (webhook_event PAYMENT_SUCCESSFUL paymentMethod False body) (\<lambda>ev.
            \<lparr>result = Inr (), emitted = emit (eventEmitter p) PAYMENT_SUCCESSFUL ev, logged = []\<rparr>)
        else if own_property body ''status'' = JStr ''cancelled'' then
          attempt (webhook_event PAYMENT_CANCELLED paymentMethod True body) (\<lambda>ev.
            \<lparr>result = Inr (), emitted = emit (eventEmitter p) PAYMENT_CANCELLED ev, logged = []\<rparr>)
        else if own_property body ''status'' = JStr ''failed'' then
          attempt (webhook_event PAYMENT_FAILED paymentMethod True body) (\<lambda>ev.
            \<lparr>result = Inr (), emitted = emit (eventEmitter p) PAYMENT_FAILED ev, logged = []\<rparr>)
        else
          \<lparr>result = Inr (), emitted = [], logged = []\<rparr>)))"

section \<open>The Stripe provider\<close>

text \<open>
  \<open>stripe.webhooks.constructEvent\<close> belongs to the Stripe library: it checks the signature
  of the raw body and returns the event, or throws. It is the parameter \<open>constructEvent\<close>
  of the handler. What it returns has the library's declared shape: an event has a
  \<open>type\<close> and, for the checkout events, a \<open>Stripe.Checkout.Session\<close> as \<open>data.object\<close>, of
  which the handler reads \<open>id\<close>, \<open>metadata\<close> (a map of strings, or \<open>null\<close>),
  \<open>amount_total\<close> (a number, or \<open>null\<close>), \<open>currency\<close> (a string, or \<open>null\<close>) and
  \<open>payment_status\<close>. The second parameter of the handler, \<open>options\<close>, is required by
  its signature; its \<open>headers\<close> may be absent.
\<close>

record Session =
  session_id :: string
  session_metadata :: "(string \<times> string) list option"
  amount_total :: "jsnum option"
  currency :: "string option"
  payment_status :: string

record Event =
  event_type :: string
  data_object :: Session

record HandleWebhookOptions =
  headers :: "(string \<times> string) list option"
  providerName :: "string option"

record StripePaymentProviderConfig =
  stripe_privateKey :: string
  webhookUrl :: "string option"
  config_webhookSecret :: "string option"

record StripePaymentProvider =
  stripe_config :: StripePaymentProviderConfig
  stripe_eventEmitter :: "EventEmitter2 option"
  webhookSecret :: "string option"

text \<open>
  The constructor copies the configured secret. \<open>init\<close>, which it starts without awaiting,
  lists and registers webhook endpoints over the network and may replace the secret
  later; the handler is modelled for any provider state.
\<close>

definition new_StripePaymentProvider :: "StripePaymentProviderConfig \<Rightarrow> StripePaymentProvider" where
  "new_StripePaymentProvider cfg =
     \<lparr>stripe_config = cfg, stripe_eventEmitter = None, webhookSecret = config_webhookSecret cfg\<rparr>"

definition stripe_useEventEmitter :: "EventEmitter2 \<Rightarrow> StripePaymentProvider \<Rightarrow> StripePaymentProvider" where
  "stripe_useEventEmitter em p = p\<lparr>stripe_eventEmitter := Some em\<rparr>"

text \<open>\<open>options.headers?.["stripe-signature"]\<close>; \<open>None\<close> is \<open>undefined\<close>.\<close>

definition stripe_signature :: "HandleWebhookOptions \<Rightarrow> string option" where
  "stripe_signature options =
     (case headers options of None \<Rightarrow> None | Some h \<Rightarrow> map_of h ''stripe-signature'')"

text \<open>\<open>session.metadata?.transactionId\<close>; \<open>None\<close> is \<open>undefined\<close>.\<close>

definition metadata_transactionId :: "Session \<Rightarrow> string option" where
  "metadata_transactionId session =
     (case session_metadata session of None \<Rightarrow> None | Some md \<Rightarrow> map_of md ''transactionId'')"

text \<open>
  \<open>parseMetadata\<close>: \<open>mapValues\<close> keeps the keys; each value goes through \<open>JSON.parse\<close>,
  and the \<open>catch\<close> block returns the value itself, writing nothing to the console.
  \<open>JSON.parse\<close> is a parameter of the handler. \<open>mapValues\<close> of \<open>null\<close> is the empty
  object.
\<close>

definition parseMetadata ::
  "(string \<Rightarrow> error + jsval) \<Rightarrow> (string \<times> string) list option \<Rightarrow> (string \<times> jsval) list"
where
  "parseMetadata JSON_parse session_md =
     (case session_md of
        None \<Rightarrow> []
      | Some md \<Rightarrow> map (\<lambda>(k, v). (k, case JSON_parse v of Inl e \<Rightarrow> JStr v | Inr x \<Rightarrow> x)) md)"

definition nullable :: "('a \<Rightarrow> jsval) \<Rightarrow> 'a option \<Rightarrow> jsval" where
  "nullable f v = (case v of None \<Rightarrow> JNull | Some x \<Rightarrow> f x)"

text \<open>
  The three event literals of the Stripe handler differ in \<open>type\<close> and in \<open>reason\<close> only.
  They are built after the guard on \<open>session.metadata?.transactionId\<close>, so \<open>metadata\<close> is
  an object there; \<open>StripePaymentProvider.name\<close> is the name of the class.
\<close>

definition stripe_event ::
  "(string \<Rightarrow> error + jsval) \<Rightarrow> PaymentEventType \<Rightarrow> jsval option \<Rightarrow> Session \<Rightarrow> string \<Rightarrow> PaymentEvent"
where
  "stripe_event JSON_parse t r session tid =
     \<lparr>type = t,
      paymentMethod = Some CREDIT_CARD,
      transactionAmount = ToNumber_primitive (nullable JNum (amount_total session)),
      transactionCurrency = nullable JStr (currency session),
      transactionId = JStr tid,
      transactionReference = JStr (session_id session),
      metadata = JObj (parseMetadata JSON_parse (session_metadata session)),
      reason = r,
      paymentProvider = Some ''StripePaymentProvider''\<rparr>"

definition warn_null :: "string \<Rightarrow> PaymentEvent option outcome" where
  "warn_null msg = \<lparr>result = Inr None, emitted = [], logged = [msg]\<rparr>"

definition emitSuccessfulPayment ::
  "(string \<Rightarrow> error + jsval) \<Rightarrow> StripePaymentProvider \<Rightarrow> Session \<Rightarrow> PaymentEvent option outcome"
where
  "emitSuccessfulPayment JSON_parse p session =
     (case metadata_transactionId session of
        None \<Rightarrow> warn_null ''No transaction ID found in stripe webhook''
      | Some tid \<Rightarrow>
          if tid = [] then warn_null ''No transaction ID found in stripe webhook''
          else
            (let paymentSuccessfulEvent = stripe_event JSON_parse PAYMENT_SUCCESSFUL None session tid
             in \<lparr>result = Inr (Some paymentSuccessfulEvent),
                 emitted = emit (stripe_eventEmitter p) PAYMENT_SUCCESSFUL paymentSuccessfulEvent,
                 logged = []\<rparr>))"

text \<open>Statements in sequence: what the first published and logged comes first.\<close>

definition after :: "(PaymentEventType \<times> PaymentEvent) list \<Rightarrow> 'r outcome \<Rightarrow> 'r outcome" where
  "after evs k = k\<lparr>emitted := evs @ emitted k\<rparr>"

text \<open>
  \<open>handleWebhook\<close> of the Stripe provider, in two parts: the branches on \<open>event.type\<close>
  that follow the \<open>try\<close> block, and before them the three checks that end in a warning
  and \<open>return null\<close>.
\<close>

definition stripe_dispatch ::
  "(string \<Rightarrow> error + jsval) \<Rightarrow> StripePaymentProvider \<Rightarrow> Event \<Rightarrow> PaymentEvent option outcome"
where
  "stripe_dispatch JSON_parse p event =
     (let session = data_object event in
      if event_type event = ''checkout.session.completed'' then
        (case metadata_transactionId session of
           None \<Rightarrow> warn_null ''No transaction ID found in stripe webhook''
         | Some tid \<Rightarrow>
             if tid = [] then warn_null ''No transaction ID found in stripe webhook''
             else
               (let paymentInitiatedEvent =
                      stripe_event JSON_parse PAYMENT_INITIATED None session tid
                in
                after (emit (stripe_eventEmitter p) PAYMENT_INITIATED paymentInitiatedEvent)
                  (if payment_status session = ''paid''
                   then emitSuccessfulPayment JSON_parse p session
                   else \<lparr>result = Inr (Some paymentInitiatedEvent), emitted = [],
                         logged = []\<rparr>)))
      else if event_type event = ''checkout.session.async_payment_succeeded'' then
        emitSuccessfulPayment JSON_parse p session
      else if event_type event = ''checkout.session.async_payment_failed'' then
        (case metadata_transactionId session of
           None \<Rightarrow> warn_null ''No transaction ID found in stripe webhook''
         | Some tid \<Rightarrow>
             if tid = [] then warn_null ''No transaction ID found in stripe webhook''
             else
               (let paymentFailedEvent =
                      stripe_event JSON_parse PAYMENT_FAILED
                        (Some (JStr ''Payment failed'')) session tid
                in \<lparr>result = Inr (Some paymentFailedEvent),
                    emitted = emit (stripe_eventEmitter p) PAYMENT_FAILED paymentFailedEvent,
                    logged = []\<rparr>))
      else \<lparr>result = Inr None, emitted = [], logged = []\<rparr>)"

definition stripe_handleWebhook ::
  "(string \<Rightarrow> string \<Rightarrow> string \<Rightarrow> error + Event) \<Rightarrow> (string \<Rightarrow> error + jsval) \<Rightarrow>
   StripePaymentProvider \<Rightarrow> string \<Rightarrow> HandleWebhookOptions \<Rightarrow> PaymentEvent option outcome"
where
  "stripe_handleWebhook constructEvent JSON_parse p rawBody options =
     (case stripe_signature options of
        None \<Rightarrow> warn_null ''No signature found in stripe webhook request''
      | Some signature \<Rightarrow>
          if signature = [] then warn_null ''No signature found in stripe webhook request''
          else
            (case webhookSecret p of
               None \<Rightarrow> warn_null ''No stripe webhook secret found''
             | Some secret \<Rightarrow>
                 if secret = [] then warn_null ''No stripe webhook secret found''
                 else
                   (case constructEvent rawBody signature secret of
                      Inl error \<Rightarrow> warn_null ''Error verifying stripe webhook signature''
                    | Inr event \<Rightarrow> stripe_dispatch JSON_parse p event)))"

text \<open>
  A request passes the three checks that precede the event: a non-empty signature header,
  a non-empty secret, and \<open>constructEvent\<close> returning \<open>event\<close> for them.
\<close>

definition stripe_verified ::
  "(string \<Rightarrow> string \<Rightarrow> string \<Rightarrow> error + Event) \<Rightarrow> StripePaymentProvider \<Rightarrow> string \<Rightarrow>
   HandleWebhookOptions \<Rightarrow> Event \<Rightarrow> bool"
where
  "stripe_verified constructEvent p rawBody options event =
     (case stripe_signature options of
        None \<Rightarrow> False
      | Some signature \<Rightarrow>
          signature \<noteq> [] \<and>
          (case webhookSecret p of
             None \<Rightarrow> False
           | Some secret \<Rightarrow> secret \<noteq> [] \<and> constructEvent rawBody signature secret = Inr event))"

section \<open>\<open>JSON.stringify\<close> and \<open>JSON.parse\<close>\<close>

text \<open>
  \<open>checkoutRedirect\<close> encodes each metadata value with \<open>JSON.stringify\<close>, and
  \<open>parseMetadata\<close> decodes with \<open>JSON.parse\<close>. Both are built-ins of the language; they
  are modelled here on the values above, without the optional replacer, reviver and
  indentation, which the source does not use.

  \<open>JSON.stringify\<close> gives \<open>undefined\<close> (\<open>None\<close>) for \<open>undefined\<close>, \<open>null\<close> for a number that is
  not finite, writes an \<open>undefined\<close> array element as \<open>null\<close> and leaves out an object
  member whose value is \<open>undefined\<close>.
\<close>

definition hex_digit :: "nat \<Rightarrow> char" where
  "hex_digit d = (if d < 10 then char_of (48 + d) else char_of (87 + d))"

definition escape_char :: "char \<Rightarrow> string" where
  "escape_char c =
     (let n = (of_char c :: nat) in
      if c = CHR 0x22 then [CHR 0x5C, CHR 0x22]
      else if c = CHR 0x5C then [CHR 0x5C, CHR 0x5C]
      else if n = 8 then [CHR 0x5C, CHR ''b'']
      else if n = 12 then [CHR 0x5C, CHR ''f'']
      else if n = 10 then [CHR 0x5C, CHR ''n'']
      else if n = 13 then [CHR 0x5C, CHR ''r'']
      else if n = 9 then [CHR 0x5C, CHR ''t'']
      else if n < 32 then
        [CHR 0x5C, CHR ''u'', CHR ''0'', CHR ''0'', hex_digit (n div 16), hex_digit (n mod 16)]
      else [c])"

definition QuoteJSONString :: "string \<Rightarrow> string" where
  "QuoteJSONString s = CHR 0x22 # concat (map escape_char s) @ [CHR 0x22]"

fun join_commas :: "string list \<Rightarrow> string" where
  "join_commas [] = []"
| "join_commas [s] = s"
| "join_commas (s # t # ss) = s @ '','' @ join_commas (t # ss)"

fun SerializeJSONProperty :: "jsval \<Rightarrow> string option"
  and SerializeJSONArray :: "jsval list \<Rightarrow> string list"
  and SerializeJSONObject :: "(string \<times> jsval) list \<Rightarrow> string list"
where
  "SerializeJSONProperty JUndefined = None"
| "SerializeJSONProperty JNull = Some ''null''"
| "SerializeJSONProperty (JBool b) = Some (if b then ''true'' else ''false'')"
| "SerializeJSONProperty (JNum n) =
     Some (case n of Fin neg m e \<Rightarrow> Number_toString n | _ \<Rightarrow> ''null'')"
| "SerializeJSONProperty (JStr s) = Some (QuoteJSONString s)"
| "SerializeJSONProperty (JArr xs) = Some (''['' @ join_commas (SerializeJSONArray xs) @ '']'')"
| "SerializeJSONProperty (JObj kvs) = Some (''{'' @ join_commas (SerializeJSONObject kvs) @ ''}'')"
| "SerializeJSONArray [] = []"
| "SerializeJSONArray (x # xs) =
     (case SerializeJSONProperty x of None \<Rightarrow> ''null'' | Some s \<Rightarrow> s) # SerializeJSONArray xs"
| "SerializeJSONObject [] = []"
| "SerializeJSONObject ((k, v) # kvs) =
     (case SerializeJSONProperty v of
        None \<Rightarrow> SerializeJSONObject kvs
      | Some s \<Rightarrow> (QuoteJSONString k @ '':'' @ s) # SerializeJSONObject kvs)"

definition JSON_stringify :: "jsval \<Rightarrow> string option" where
  "JSON_stringify v = SerializeJSONProperty v"

text \<open>
  \<open>JSON.parse\<close>, by recursive descent. Strings are lists of 8-bit code units, so an
  escape \<open>\uXXXX\<close> above \<open>00FF\<close> denotes a code unit the model does not have: the parser
  rejects it, where JavaScript accepts it. A later member with the key of an earlier one
  replaces its value in place. The list of an object follows the text, where JavaScript
  enumerates integer-like keys first; the properties are the same.
\<close>

definition json_ws :: "char \<Rightarrow> bool" where
  "json_ws c = ((of_char c :: nat) \<in> {9, 10, 13, 32})"

definition skip_ws :: "string \<Rightarrow> string" where
  "skip_ws s = dropWhile json_ws s"

definition unescape :: "char \<Rightarrow> char option" where
  "unescape e =
     (if e = CHR 0x22 then Some (CHR 0x22)
      else if e = CHR 0x5C then Some (CHR 0x5C)
      else if e = CHR ''/'' then Some (CHR ''/'')
      else if e = CHR ''b'' then Some (char_of (8 :: nat))
      else if e = CHR ''f'' then Some (char_of (12 :: nat))
      else if e = CHR ''n'' then Some (char_of (10 :: nat))
      else if e = CHR ''r'' then Some (char_of (13 :: nat))
      else if e = CHR ''t'' then Some (char_of (9 :: nat))
      else None)"

definition hex4 :: "char \<Rightarrow> char \<Rightarrow> char \<Rightarrow> char \<Rightarrow> nat option" where
  "hex4 h1 h2 h3 h4 =
     (case (radix_digit 16 h1, radix_digit 16 h2, radix_digit 16 h3, radix_digit 16 h4) of
        (Some a, Some b, Some c, Some d) \<Rightarrow> Some (((a * 16 + b) * 16 + c) * 16 + d)
      | _ \<Rightarrow> None)"

definition cons_char :: "char \<Rightarrow> (string \<times> string) option \<Rightarrow> (string \<times> string) option" where
  "cons_char c r = (case r of None \<Rightarrow> None | Some (s, t) \<Rightarrow> Some (c # s, t))"

text \<open>The characters of a string literal after its opening quote, and what follows it.\<close>

fun string_body :: "string \<Rightarrow> (string \<times> string) option" where
  "string_body [] = None"
| "string_body (c # cs) =
     (if c = CHR 0x22 then Some ([], cs)
      else if c = CHR 0x5C then
        (case cs of
           [] \<Rightarrow> None
         | e # r \<Rightarrow>
             if e = CHR ''u'' then
               (case r of
                  h1 # h2 # h3 # h4 # r' \<Rightarrow>
                    (case hex4 h1 h2 h3 h4 of
                       None \<Rightarrow> None
                     | Some n \<Rightarrow> if n < 256 then cons_char (char_of n) (string_body r') else None)
                | _ \<Rightarrow> None)
             else
               (case unescape e of
                  None \<Rightarrow> None
                | Some ch \<Rightarrow> cons_char ch (string_body r)))
      else if (of_char c :: nat) < 32 then None
      else cons_char c (string_body cs))"

text \<open>
  A number: an optional minus, an integer part without a leading zero, an optional
  fraction, an optional exponent. Each part returns what it read and what follows it.
\<close>

definition fraction_part :: "string \<Rightarrow> (string \<times> string) option" where
  "fraction_part r =
     (case r of
        [] \<Rightarrow> Some ([], [])
      | c # t \<Rightarrow>
          if c = CHR ''.'' then
            (if takeWhile is_digit t = [] then None
             else Some (takeWhile is_digit t, dropWhile is_digit t))
          else Some ([], r))"

definition exponent_digits :: "bool \<Rightarrow> string \<Rightarrow> (int \<times> string) option" where
  "exponent_digits neg t =
     (if takeWhile is_digit t = [] then None
      else Some (if neg then - int (digits_val (takeWhile is_digit t))
                 else int (digits_val (takeWhile is_digit t)),
                 dropWhile is_digit t))"

definition json_exponent :: "string \<Rightarrow> (int \<times> string) option" where
  "json_exponent r =
     (case r of
        [] \<Rightarrow> Some (0, [])
      | c # t \<Rightarrow>
          if c = CHR ''e'' \<or> c = CHR ''E'' then
            (case t of
               [] \<Rightarrow> None
             | s # u \<Rightarrow>
                 if s = CHR ''-'' then exponent_digits True u
                 else if s = CHR ''+'' then exponent_digits False u
                 else exponent_digits False t)
          else Some (0, r))"

definition unsigned_number :: "bool \<Rightarrow> string \<Rightarrow> (jsval \<times> string) option" where
  "unsigned_number neg s =
     (let ip = takeWhile is_digit s in
      if ip = [] \<or> (hd ip = CHR ''0'' \<and> length ip > 1) then None
      else
        (case fraction_part (dropWhile is_digit s) of
           None \<Rightarrow> None
         | Some (fp, r2) \<Rightarrow>
             (case json_exponent r2 of
                None \<Rightarrow> None
              | Some (x, r3) \<Rightarrow>
                  Some (JNum (mk_fin neg (digits_val (ip @ fp)) (x - int (length fp))), r3))))"

definition parse_number :: "string \<Rightarrow> (jsval \<times> string) option" where
  "parse_number s =
     (case s of
        [] \<Rightarrow> None
      | c # cs \<Rightarrow> if c = CHR ''-'' then unsigned_number True cs else unsigned_number False s)"

definition set_property :: "(string \<times> jsval) list \<Rightarrow> string \<Rightarrow> jsval \<Rightarrow> (string \<times> jsval) list" where
  "set_property kvs k v =
     (if k \<in> fst ` set kvs then map (\<lambda>(k', v'). if k' = k then (k', v) else (k', v')) kvs
      else kvs @ [(k, v)])"

fun parse_value :: "nat \<Rightarrow> string \<Rightarrow> (jsval \<times> string) option"
  and parse_elements :: "nat \<Rightarrow> string \<Rightarrow> (jsval list \<times> string) option"
  and parse_members ::
    "nat \<Rightarrow> (string \<times> jsval) list \<Rightarrow> string \<Rightarrow> ((string \<times> jsval) list \<times> string) option"
where
  "parse_value 0 s = None"
| "parse_value (Suc n) s =
     (case skip_ws s of
        [] \<Rightarrow> None
      | c # cs \<Rightarrow>
          if c = CHR ''{'' then
            (case skip_ws cs of
               [] \<Rightarrow> None
             | d # ds \<Rightarrow>
                 if d = CHR ''}'' then Some (JObj [], ds)
                 else (case parse_members n [] cs of
                         None \<Rightarrow> None
                       | Some (ms, r) \<Rightarrow> Some (JObj ms, r)))
          else if c = CHR ''['' then
            (case skip_ws cs of
               [] \<Rightarrow> None
             | d # ds \<Rightarrow>
                 if d = CHR '']'' then Some (JArr [], ds)
                 else (case parse_elements n cs of
                         None \<Rightarrow> None
                       | Some (vs, r) \<Rightarrow> Some (JArr vs, r)))
          else if c = CHR 0x22 then
            (case string_body cs of None \<Rightarrow> None | Some (str, r) \<Rightarrow> Some (JStr str, r))
          else if take 4 (c # cs) = ''null'' then Some (JNull, drop 4 (c # cs))
          else if take 4 (c # cs) = ''true'' then Some (JBool True, drop 4 (c # cs))
          else if take 5 (c # cs) = ''false'' then Some (JBool False, drop 5 (c # cs))
          else if c = CHR ''-'' \<or> is_digit c then parse_number (c # cs)
          else None)"
| "parse_elements 0 s = None"
| "parse_elements (Suc n) s =
     (case parse_value n s of
        None \<Rightarrow> None
      | Some (v, r) \<Rightarrow>
          (case skip_ws r of
             [] \<Rightarrow> None
           | c # cs \<Rightarrow>
               if c = CHR '','' then
                 (case parse_elements n cs of
                    None \<Rightarrow> None
                  | Some (vs, t) \<Rightarrow> Some (v # vs, t))
               else if c = CHR '']'' then Some ([v], cs)
               else None))"
| "parse_members 0 acc s = None"
| "parse_members (Suc n) acc s =
     (case skip_ws s of
        [] \<Rightarrow> None
      | q # cs \<Rightarrow>
          if q \<noteq> CHR 0x22 then None
          else
            (case string_body cs of
               None \<Rightarrow> None
             | Some (k, r) \<Rightarrow>
                 (case skip_ws r of
                    [] \<Rightarrow> None
                  | c # r1 \<Rightarrow>
                      if c \<noteq> CHR '':'' then None
                      else
                        (case parse_value n r1 of
                           None \<Rightarrow> None
                         | Some (v, r2) \<Rightarrow>
                             (case skip_ws r2 of
                                [] \<Rightarrow> None
                              | d # r3 \<Rightarrow>
                                  if d = CHR '','' then parse_members n (set_property acc k v) r3
                                  else if d = CHR ''}'' then Some (set_property acc k v, r3)
                                  else None)))))"

text \<open>
  The recursion is bounded by a counter that every call decrements; a call consumes a
  character at least every second step, so twice the length of the text is enough.
\<close>

definition JSON_parse :: "string \<Rightarrow> error + jsval" where
  "JSON_parse text =
     (case parse_value (2 * length text + 2) text of
        None \<Rightarrow> Inl SyntaxError
      | Some (v, r) \<Rightarrow> if skip_ws r = [] then Inr v else Inl SyntaxError)"

section \<open>Metadata at checkout\<close>

text \<open>
  The \<open>metadata\<close> that \<open>checkoutRedirect\<close> sends to Stripe:
  \<open>{...mapValues(options.metadata, (value) => JSON.stringify(value)), transactionId:
  options.transactionId}\<close>. \<open>mapValues\<close> of an absent \<open>metadata\<close> is the empty object; the
  property \<open>transactionId\<close> written after the spread replaces a metadata entry of that
  name.
\<close>

definition checkout_metadata ::
  "(jsval \<Rightarrow> string option) \<Rightarrow> (string \<times> jsval) list option \<Rightarrow> string \<Rightarrow> (string \<times> jsval) list"
where
  "checkout_metadata stringify options_metadata options_transactionId =
     set_property
       (case options_metadata of
          None \<Rightarrow> []
        | Some md \<Rightarrow>
            map (\<lambda>(k, v). (k, case stringify v of None \<Rightarrow> JUndefined | Some s \<Rightarrow> JStr s)) md)
       ''transactionId'' (JStr options_transactionId)"

text \<open>
  Between checkout and webhook the metadata is in Stripe's hands; section 3 of the spec
  has it "echoed back unmodified by provider in webhook". Stripe's metadata channel holds
  strings only: the session of the webhook carries the string entries that the checkout
  sent, and an entry whose value \<open>JSON.stringify\<close> left \<open>undefined\<close> is not among them.
\<close>

definition echoed_metadata :: "(string \<times> jsval) list \<Rightarrow> (string \<times> string) list" where
  "echoed_metadata md = concat (map (\<lambda>(k, v). case v of JStr s \<Rightarrow> [(k, s)] | _ \<Rightarrow> []) md)"

text \<open>
  The values for which the round trip is stated: \<open>null\<close>, booleans, finite numbers in
  canonical form other than the negative zero, strings, and arrays and objects of such
  values, an object having each key once.
\<close>

fun json_value :: "jsval \<Rightarrow> bool"
  and json_values :: "jsval list \<Rightarrow> bool"
  and json_members :: "(string \<times> jsval) list \<Rightarrow> bool"
where
  "json_value JUndefined = False"
| "json_value JNull = True"
| "json_value (JBool b) = True"
| "json_value (JNum n) =
     (case n of Fin neg m e \<Rightarrow> strip_zeros m e = (m, e) \<and> (m = 0 \<longrightarrow> \<not> neg) | _ \<Rightarrow> False)"
| "json_value (JStr s) = True"
| "json_value (JArr xs) = json_values xs"
| "json_value (JObj kvs) = (distinct (map fst kvs) \<and> json_members kvs)"
| "json_values [] = True"
| "json_values (x # xs) = (json_value x \<and> json_values xs)"
| "json_members [] = True"
| "json_members ((k, v) # kvs) = (json_value v \<and> json_members kvs)"

text \<open>
  What may follow a value inside an array or an object, and how a value may begin: the
  serialisation writes no white space, so a value is followed by a comma or a closing
  bracket, or ends the text.
\<close>

definition follows_value :: "string \<Rightarrow> bool" where
  "follows_value rest = (rest = [] \<or> hd rest \<in> {CHR '','', CHR '']'', CHR ''}''})"

text \<open>
  The depth of recursion that parsing the serialisation of a value takes.
\<close>

fun value_fuel :: "jsval \<Rightarrow> nat"
  and values_fuel :: "jsval list \<Rightarrow> nat"
  and members_fuel :: "(string \<times> jsval) list \<Rightarrow> nat"
where
  "value_fuel (JArr xs) = Suc (values_fuel xs)"
| "value_fuel (JObj kvs) = Suc (members_fuel kvs)"
| "value_fuel v = Suc 0"
| "values_fuel [] = 0"
| "values_fuel (x # xs) = Suc (value_fuel x + values_fuel xs)"
| "members_fuel [] = 0"
| "members_fuel ((k, v) # kvs) = Suc (value_fuel v + members_fuel kvs)"

definition starts_value :: "string \<Rightarrow> bool" where
  "starts_value s = (s \<noteq> [] \<and> \<not> json_ws (hd s) \<and> hd s \<noteq> CHR '']'' \<and> hd s \<noteq> CHR ''}'')"

section \<open>Concrete inputs\<close>

text \<open>
  The inputs at which the witnesses and counterexamples evaluate the handlers. The digest
  there is a stand-in for SHA-512: the handlers only compare it.
\<close>

definition example_digest :: "string \<Rightarrow> string" where
  "example_digest k = ''sha512:'' @ k"

definition example_config :: PaydunyaPaymentProviderConfig where
  "example_config =
     \<lparr>masterKey = ''mk'', privateKey = ''sk'', publicKey = ''pk'', token = ''tok'',
      mode = ''test'', store_name = ''shop''\<rparr>"

definition example_provider :: PaydunyaPaymentProvider where
  "example_provider =
     useEventEmitter (EventEmitter2 0) (fst (new_PaydunyaPaymentProvider example_digest example_config))"

text \<open>A body as Paydunya sends it for a completed Wave payment of 5000 XOF.\<close>

definition completed_body :: "(string \<times> jsval) list" where
  "completed_body =
     [(''response_code'', JStr ''00''),
      (''response_text'', JStr ''Transaction Found''),
      (''hash'', JStr ''sha512:mk''),
      (''invoice'', JObj [(''token'', JStr ''inv-1''), (''total_amount'', JStr ''5000'')]),
      (''custom_data'', JObj [(''transaction_id'', JStr ''tx-42'')]),
      (''status'', JStr ''completed''),
      (''customer'', JObj [(''payment_method'', JStr ''wave_senegal'')])]"

text \<open>The same body with a hash that is not the digest of the master key.\<close>

definition forged_body :: "(string \<times> jsval) list" where
  "forged_body = (''hash'', JStr ''sha512:other'') # completed_body"

text \<open>A verified body with a status the handler does not know.\<close>

definition pending_body :: "(string \<times> jsval) list" where
  "pending_body = (''status'', JStr ''pending'') # completed_body"

text \<open>A verified body with an unknown status and no \<open>customer\<close>.\<close>

definition no_customer_body :: "(string \<times> jsval) list" where
  "no_customer_body = [(''hash'', JStr ''sha512:mk''), (''status'', JStr ''pending'')]"


text \<open>A verified, completed body whose \<open>custom_data\<close> has no \<open>transaction_id\<close>.\<close>

definition uncorrelated_body :: "(string \<times> jsval) list" where
  "uncorrelated_body = (''custom_data'', JObj [(''order'', JStr ''A-7'')]) # completed_body"

text \<open>The same with an empty \<open>transaction_id\<close>.\<close>

definition empty_id_body :: "(string \<times> jsval) list" where
  "empty_id_body = (''custom_data'', JObj [(''transaction_id'', JStr [])]) # completed_body"

text \<open>
  A Stripe provider with a secret and an emitter, a library stub that accepts one
  signature and returns the given event for it, and the checkout session of the
  spec's scenario.
\<close>

definition example_stripe_provider :: StripePaymentProvider where
  "example_stripe_provider =
     stripe_useEventEmitter (EventEmitter2 0)
       (new_StripePaymentProvider
          \<lparr>stripe_privateKey = ''sk_test'', webhookUrl = None, config_webhookSecret = Some ''whsec''\<rparr>)"

definition example_constructEvent :: "Event \<Rightarrow> string \<Rightarrow> string \<Rightarrow> string \<Rightarrow> error + Event" where
  "example_constructEvent ev rawBody signature secret =
     (if signature = ''t=1,v1=ok'' \<and> secret = ''whsec'' then Inr ev
      else Inl StripeSignatureVerificationError)"

definition example_options :: HandleWebhookOptions where
  "example_options = \<lparr>headers = Some [(''stripe-signature'', ''t=1,v1=ok'')], providerName = None\<rparr>"

definition example_session :: "string \<Rightarrow> Session" where
  "example_session status =
     \<lparr>session_id = ''cs_test_1'',
      session_metadata = Some [(''transactionId'', ''tx-42'')],
      amount_total = Some (mk_fin False 5000 0),
      currency = Some ''XOF'',
      payment_status = status\<rparr>"

definition no_parse :: "string \<Rightarrow> error + jsval" where
  "no_parse s = Inl SyntaxError"


section \<open>\<open>JSON.parse\<close> inverts \<open>JSON.stringify\<close>\<close>

lemma of_char_digit_char: "d < 10 \<Longrightarrow> (of_char (digit_char d) :: nat) = 48 + d"
  by (simp add: digit_char_def)

lemma is_digit_digit_char: "d < 10 \<Longrightarrow> is_digit (digit_char d)"
  by (simp add: is_digit_def of_char_digit_char)

lemma digit_val_digit_char: "d < 10 \<Longrightarrow> digit_val (digit_char d) = d"
  by (simp add: digit_val_def of_char_digit_char)

lemma digits_val_snoc: "digits_val (ds @ [c]) = 10 * digits_val ds + digit_val c"
  by (simp add: digits_val_def)

lemma decimal_digits_all: "list_all is_digit (decimal_digits n)"
  by (induction n rule: decimal_digits.induct)
     (subst decimal_digits.simps, simp add: is_digit_digit_char)

lemma decimal_digits_nonempty: "decimal_digits n \<noteq> []"
  by (subst decimal_digits.simps) simp

lemma digits_val_decimal_digits: "digits_val (decimal_digits n) = n"
proof (induction n rule: decimal_digits.induct)
  case (1 n)
  show ?case
  proof (cases "n < 10")
    case True
    then show ?thesis
      by (subst decimal_digits.simps) (simp add: digits_val_def digit_val_digit_char)
  next
    case False
    with 1 show ?thesis
      by (subst decimal_digits.simps) (simp add: digits_val_snoc digit_val_digit_char)
  qed
qed

lemma hd_decimal_digits: "0 < n \<Longrightarrow> hd (decimal_digits n) \<noteq> CHR ''0''"
proof (induction n rule: decimal_digits.induct)
  case (1 n)
  show ?case
  proof (cases "n < 10")
    case True
    with 1(2) have "(of_char (digit_char n) :: nat) \<noteq> 48"
      by (simp add: of_char_digit_char)
    then have "digit_char n \<noteq> CHR ''0''" by auto
    with True show ?thesis by (subst decimal_digits.simps) simp
  next
    case False
    then have "0 < n div 10" by simp
    with 1(1) False have "hd (decimal_digits (n div 10)) \<noteq> CHR ''0''" by simp
    with False show ?thesis
      by (subst decimal_digits.simps) (simp add: decimal_digits_nonempty)
  qed
qed

lemma digits_val_append:
  "digits_val (a @ b) = digits_val a * 10 ^ length b + digits_val b"
proof (induction b rule: rev_induct)
  case Nil
  then show ?case by (simp add: digits_val_def)
next
  case (snoc c b)
  have "digits_val (a @ b @ [c]) = 10 * digits_val (a @ b) + digit_val c"
    using digits_val_snoc[of "a @ b" c] by simp
  with snoc show ?case by (simp add: digits_val_snoc algebra_simps)
qed

lemma digits_val_zeros: "digits_val (replicate j (CHR ''0'')) = 0"
  by (induction j) (simp_all add: digits_val_def digit_val_def)

lemma is_digit_zero: "is_digit (CHR ''0'')"
  by (simp add: is_digit_def)

lemma strip_zeros_canonical_mult:
  "m \<noteq> 0 \<Longrightarrow> strip_zeros (m * 10 ^ j) e = strip_zeros m (e + int j)"
proof (induction j arbitrary: e)
  case 0
  then show ?case by simp
next
  case (Suc j)
  have "strip_zeros (m * 10 ^ Suc j) e = strip_zeros (m * 10 ^ j) (e + 1)"
    using Suc.prems by (subst strip_zeros.simps) simp
  with Suc show ?case by (simp add: algebra_simps)
qed

lemma takeWhile_nondigit:
  assumes "rest = [] \<or> \<not> is_digit (hd rest)"
  shows "takeWhile is_digit rest = []" and "dropWhile is_digit rest = rest"
  using assms by (cases rest; auto)+

lemma takeWhile_digits:
  assumes "list_all is_digit ds" and "rest = [] \<or> \<not> is_digit (hd rest)"
  shows "takeWhile is_digit (ds @ rest) = ds" and "dropWhile is_digit (ds @ rest) = rest"
  using assms(1) takeWhile_nondigit[OF assms(2)] by (induction ds) auto

text \<open>The shape of a JSON number, and what \<open>parse_number\<close> makes of it.\<close>

lemma follows_value_nondigit:
  assumes "follows_value rest"
  shows "rest = [] \<or> \<not> is_digit (hd rest)"
  using assms by (auto simp: follows_value_def is_digit_def)

lemma fraction_part_some:
  assumes "list_all is_digit fp" "fp \<noteq> []" "r = [] \<or> \<not> is_digit (hd r)"
  shows "fraction_part (''.'' @ fp @ r) = Some (fp, r)"
  using takeWhile_digits[OF assms(1,3)] assms(2) by (simp add: fraction_part_def)

lemma fraction_part_none:
  assumes "r = [] \<or> hd r \<noteq> CHR ''.''"
  shows "fraction_part r = Some ([], r)"
  using assms by (cases r) (auto simp: fraction_part_def)

lemma exponent_digits_some:
  assumes "list_all is_digit ed" "ed \<noteq> []" "r = [] \<or> \<not> is_digit (hd r)"
  shows "exponent_digits neg (ed @ r) =
           Some (if neg then - int (digits_val ed) else int (digits_val ed), r)"
  using takeWhile_digits[OF assms(1,3)] assms(2) by (simp add: exponent_digits_def)

lemma json_exponent_some:
  assumes "list_all is_digit ed" "ed \<noteq> []" "r = [] \<or> \<not> is_digit (hd r)"
  shows "json_exponent (''e-'' @ ed @ r) = Some (- int (digits_val ed), r)"
    and "json_exponent (''e+'' @ ed @ r) = Some (int (digits_val ed), r)"
  using exponent_digits_some[OF assms] by (simp_all add: json_exponent_def)

lemma json_exponent_none:
  assumes "follows_value r"
  shows "json_exponent r = Some (0, r)"
  using assms by (cases r) (auto simp: json_exponent_def follows_value_def)

lemma unsigned_number_shape:
  assumes "list_all is_digit ip" "ip \<noteq> []" "hd ip = CHR ''0'' \<longrightarrow> length ip = 1"
    and "t = [] \<or> \<not> is_digit (hd t)"
    and "fraction_part t = Some (fp, r2)"
    and "json_exponent r2 = Some (x, r3)"
  shows "unsigned_number neg (ip @ t) =
           Some (JNum (mk_fin neg (digits_val (ip @ fp)) (x - int (length fp))), r3)"
  using takeWhile_digits[OF assms(1,4)] assms(2,3,5,6)
  by (auto simp: unsigned_number_def Let_def)

lemma parse_number_minus: "parse_number (''-'' @ s) = unsigned_number True s"
  by (simp add: parse_number_def)

lemma parse_number_plain:
  assumes "s \<noteq> []" "is_digit (hd s)"
  shows "parse_number s = unsigned_number False s"
  using assms by (cases s) (auto simp: parse_number_def is_digit_def)

lemma nondigit_chars:
  "\<not> is_digit (CHR ''.'')" "\<not> is_digit (CHR ''e'')" "\<not> is_digit (CHR ''-'')"
  by (simp_all add: is_digit_def)

lemma follows_value_no_dot:
  "follows_value rest \<Longrightarrow> rest = [] \<or> hd rest \<noteq> CHR ''.''"
  by (auto simp: follows_value_def)

lemma list_all_digit_zeros: "list_all is_digit (replicate j (CHR ''0''))"
  by (induction j) (simp_all add: is_digit_zero)

lemma list_all_digit_take_drop:
  "list_all is_digit s \<Longrightarrow> list_all is_digit (take n s) \<and> list_all is_digit (drop n s)"
  by (metis append_take_drop_id list_all_append)

lemma signed_exponent:
  assumes "follows_value rest"
  shows "json_exponent (''e'' @ (if x < 0 then ''-'' else ''+'') @ decimal_digits (nat \<bar>x\<bar>) @ rest)
           = Some (x, rest)"
  using json_exponent_some[OF decimal_digits_all decimal_digits_nonempty
          follows_value_nondigit[OF assms], of "nat \<bar>x\<bar>"]
  by (auto simp: digits_val_decimal_digits)

lemma unsigned_number_toString:
  assumes canon: "strip_zeros m e = (m, e)" and pos: "m \<noteq> 0" and rest: "follows_value rest"
  shows "unsigned_number neg
           ((let s = decimal_digits m; k = int (length s); n = k + e in
               if k \<le> n \<and> n \<le> 21 then s @ replicate (nat (n - k)) (CHR ''0'')
               else if 0 < n \<and> n \<le> 21 then take (nat n) s @ ''.'' @ drop (nat n) s
               else if - 6 < n \<and> n \<le> 0 then ''0.'' @ replicate (nat (- n)) (CHR ''0'') @ s
               else
                 (let ex = (if n - 1 < 0 then ''-'' else ''+'') @ decimal_digits (nat \<bar>n - 1\<bar>)
                  in if k = 1 then s @ ''e'' @ ex
                     else take 1 s @ ''.'' @ drop 1 s @ ''e'' @ ex)) @ rest)
         = Some (JNum (Fin neg m e), rest)"
proof -
  define s where "s = decimal_digits m"
  define k where "k = int (length s)"
  define n where "n = k + e"
  have s_digits: "list_all is_digit s" by (simp add: s_def decimal_digits_all)
  have s_ne: "s \<noteq> []" by (simp add: s_def decimal_digits_nonempty)
  have s_val: "digits_val s = m" by (simp add: s_def digits_val_decimal_digits)
  have s_hd: "hd s \<noteq> CHR ''0''" using pos by (simp add: s_def hd_decimal_digits)
  have k_pos: "0 < k" using s_ne by (simp add: k_def)
  have mk: "mk_fin neg m e = Fin neg m e" by (simp add: mk_fin_def canon)
  note rd = follows_value_nondigit[OF rest]
  note frac0 = fraction_part_none[OF follows_value_no_dot[OF rest]]
  note exp0 = json_exponent_none[OF rest]
  define c1 where "c1 = (k \<le> n \<and> n \<le> 21)"
  define c2 where "c2 = (0 < n \<and> n \<le> 21)"
  define c3 where "c3 = (- 6 < n \<and> n \<le> 0)"
  consider (int) c1
    | (frac) "\<not> c1" c2
    | (small) "\<not> c1" "\<not> c2" c3
    | (exp1) "\<not> c1" "\<not> c2" "\<not> c3" "k = 1"
    | (expk) "\<not> c1" "\<not> c2" "\<not> c3" "k \<noteq> 1"
    by blast
  then have "unsigned_number neg
           ((if c1 then s @ replicate (nat (n - k)) (CHR ''0'')
               else if c2 then take (nat n) s @ ''.'' @ drop (nat n) s
               else if c3 then ''0.'' @ replicate (nat (- n)) (CHR ''0'') @ s
               else
                 (let ex = (if n - 1 < 0 then ''-'' else ''+'') @ decimal_digits (nat \<bar>n - 1\<bar>)
                  in if k = 1 then s @ ''e'' @ ex
                     else take 1 s @ ''.'' @ drop 1 s @ ''e'' @ ex)) @ rest)
         = Some (JNum (Fin neg m e), rest)"
  proof cases
    case int
    let ?ip = "s @ replicate (nat (n - k)) (CHR ''0'')"
    have e: "e = int (nat (n - k))" using int by (simp add: n_def c1_def)
    have 1: "list_all is_digit ?ip" using s_digits by (simp add: list_all_digit_zeros)
    have 2: "?ip \<noteq> []" using s_ne by simp
    have 3: "hd ?ip = CHR ''0'' \<longrightarrow> length ?ip = 1" using s_ne s_hd by simp
    have v: "digits_val (?ip @ []) = m * 10 ^ nat (n - k)"
      by (simp add: digits_val_append s_val digits_val_zeros)
    have mk': "mk_fin neg (m * 10 ^ nat (n - k)) (0 - int (length ([] :: string))) = Fin neg m e"
      using strip_zeros_canonical_mult[OF pos, of "nat (n - k)" 0] canon e
      by (simp add: mk_fin_def)
    have "unsigned_number neg (?ip @ rest) =
            Some (JNum (mk_fin neg (digits_val (?ip @ [])) (0 - int (length ([] :: string)))), rest)"
      by (rule unsigned_number_shape[OF 1 2 3 rd frac0 exp0])
    then have "unsigned_number neg (?ip @ rest) = Some (JNum (Fin neg m e), rest)"
      by (simp only: v mk')
    then show ?thesis using int by simp
  next
    case frac
    then have nk: "n < k" and n0: "0 < n" by (auto simp: c1_def c2_def)
    let ?ip = "take (nat n) s"
    let ?fp = "drop (nat n) s"
    have 1: "list_all is_digit ?ip" "list_all is_digit ?fp"
      using list_all_digit_take_drop[OF s_digits] by auto
    have 2: "?ip \<noteq> []" using n0 s_ne by simp
    have 3: "hd ?ip = CHR ''0'' \<longrightarrow> length ?ip = 1" using n0 s_hd s_ne by simp
    have "nat n < length s" using nk n0 unfolding k_def by linarith
    then have fne: "?fp \<noteq> []" by simp
    have 4: "''.'' @ ?fp @ rest = [] \<or> \<not> is_digit (hd (''.'' @ ?fp @ rest))"
      by (simp add: nondigit_chars)
    have len: "int (length ?fp) = k - n" using nk n0 unfolding k_def by simp
    have ex: "0 - int (length ?fp) = e" using len by (simp add: n_def)
    have v: "digits_val (?ip @ ?fp) = m" by (simp add: s_val)
    have "unsigned_number neg (?ip @ ''.'' @ ?fp @ rest) =
            Some (JNum (mk_fin neg (digits_val (?ip @ ?fp)) (0 - int (length ?fp))), rest)"
      by (rule unsigned_number_shape[OF 1(1) 2 3 4 fraction_part_some[OF 1(2) fne rd] exp0])
    then have "unsigned_number neg (?ip @ ''.'' @ ?fp @ rest) = Some (JNum (Fin neg m e), rest)"
      by (simp only: v ex mk)
    then show ?thesis using frac by simp
  next
    case small
    then have n6: "n \<le> 0" by (simp add: c3_def)
    let ?fp = "replicate (nat (- n)) (CHR ''0'') @ s"
    have 1: "list_all is_digit ''0''" by (simp add: is_digit_zero)
    have f: "list_all is_digit ?fp" using s_digits by (simp add: list_all_digit_zeros)
    have fne: "?fp \<noteq> []" using s_ne by simp
    have 4: "''.'' @ ?fp @ rest = [] \<or> \<not> is_digit (hd (''.'' @ ?fp @ rest))"
      by (simp add: nondigit_chars)
    have len: "int (length ?fp) = k - n" using n6 by (simp add: k_def)
    have v: "digits_val (''0'' @ ?fp) = m"
      using digits_val_append[of "''0'' @ replicate (nat (- n)) (CHR ''0'')" s]
            digits_val_zeros[of "Suc (nat (- n))"]
      by (simp add: s_val)
    have ex: "0 - int (length ?fp) = e" using len by (simp add: n_def)
    have "unsigned_number neg (''0'' @ ''.'' @ ?fp @ rest) =
            Some (JNum (mk_fin neg (digits_val (''0'' @ ?fp)) (0 - int (length ?fp))), rest)"
      by (rule unsigned_number_shape[OF 1 _ _ 4 fraction_part_some[OF f fne rd] exp0]) simp_all
    then have "unsigned_number neg (''0'' @ ''.'' @ ?fp @ rest) = Some (JNum (Fin neg m e), rest)"
      by (simp only: v ex mk)
    then show ?thesis using small by simp
  next
    case exp1
    let ?t = "''e'' @ (if n - 1 < 0 then ''-'' else ''+'') @ decimal_digits (nat \<bar>n - 1\<bar>) @ rest"
    have 3: "hd s = CHR ''0'' \<longrightarrow> length s = 1" using s_hd by simp
    have 4: "?t = [] \<or> \<not> is_digit (hd ?t)" by (simp add: nondigit_chars)
    have fr: "fraction_part ?t = Some ([], ?t)" by (rule fraction_part_none) simp
    have ex: "n - 1 - int (length ([] :: string)) = e" using exp1(4) by (simp add: n_def)
    have v: "digits_val (s @ []) = m" by (simp add: s_val)
    have "unsigned_number neg (s @ ?t) =
            Some (JNum (mk_fin neg (digits_val (s @ [])) (n - 1 - int (length ([] :: string)))), rest)"
      by (rule unsigned_number_shape[OF s_digits s_ne 3 4 fr signed_exponent[OF rest]])
    then have "unsigned_number neg (s @ ?t) = Some (JNum (Fin neg m e), rest)"
      by (simp only: v ex mk)
    then show ?thesis using exp1 by (simp add: Let_def)
  next
    case expk
    then have k2: "1 < k" using k_pos by simp
    let ?ip = "take 1 s"
    let ?fp = "drop 1 s"
    let ?x = "''e'' @ (if n - 1 < 0 then ''-'' else ''+'') @ decimal_digits (nat \<bar>n - 1\<bar>) @ rest"
    have 1: "list_all is_digit ?ip" "list_all is_digit ?fp"
      using list_all_digit_take_drop[OF s_digits] by auto
    have 2: "?ip \<noteq> []" using s_ne by simp
    have 3: "hd ?ip = CHR ''0'' \<longrightarrow> length ?ip = 1" using s_ne by (cases s) simp_all
    have fne: "?fp \<noteq> []" using k2 by (simp add: k_def)
    have 4: "''.'' @ ?fp @ ?x = [] \<or> \<not> is_digit (hd (''.'' @ ?fp @ ?x))"
      by (simp add: nondigit_chars)
    have xd: "?x = [] \<or> \<not> is_digit (hd ?x)" by (simp add: nondigit_chars)
    have len: "int (length ?fp) = k - 1" using k2 by (simp add: k_def)
    have ex: "n - 1 - int (length ?fp) = e" using len by (simp add: n_def)
    have v: "digits_val (?ip @ ?fp) = m" by (simp add: s_val)
    have "unsigned_number neg (?ip @ ''.'' @ ?fp @ ?x) =
            Some (JNum (mk_fin neg (digits_val (?ip @ ?fp)) (n - 1 - int (length ?fp))), rest)"
      by (rule unsigned_number_shape[OF 1(1) 2 3 4 fraction_part_some[OF 1(2) fne xd]
            signed_exponent[OF rest]])
    then have "unsigned_number neg (?ip @ ''.'' @ ?fp @ ?x) = Some (JNum (Fin neg m e), rest)"
      by (simp only: v ex mk)
    then show ?thesis using expk by (simp add: Let_def)
  qed
  then show ?thesis unfolding c1_def c2_def c3_def n_def k_def s_def Let_def .
qed

lemma strip_zeros_0: "strip_zeros 0 e = (0, 0)"
  by (simp add: strip_zeros.simps)

lemma is_digit_hd_decimal_digits: "is_digit (hd (decimal_digits n))"
  using decimal_digits_all[of n] decimal_digits_nonempty[of n]
  by (cases "decimal_digits n") auto

lemma parse_number_toString:
  assumes canon: "strip_zeros m e = (m, e)" and nz: "m = 0 \<longrightarrow> \<not> neg"
    and rest: "follows_value rest"
  shows "parse_number (Number_toString (Fin neg m e) @ rest) = Some (JNum (Fin neg m e), rest)"
proof (cases "m = 0")
  case True
  with canon have e: "e = 0" by (simp add: strip_zeros_0)
  from True nz have neg: "\<not> neg" by simp
  have 1: "list_all is_digit ''0''" by (simp add: is_digit_zero)
  have "unsigned_number False (''0'' @ rest) =
          Some (JNum (mk_fin False (digits_val (''0'' @ [])) (0 - int (length ([] :: string)))), rest)"
    by (rule unsigned_number_shape[OF 1 _ _ follows_value_nondigit[OF rest]
          fraction_part_none[OF follows_value_no_dot[OF rest]] json_exponent_none[OF rest]])
       simp_all
  then have "parse_number (''0'' @ rest) = Some (JNum (Fin False 0 0), rest)"
    by (simp add: parse_number_def digits_val_def digit_val_def mk_fin_def strip_zeros_0)
  with True e neg show ?thesis
    by (simp add: Number_toString_def strip_zeros_0)
next
  case False
  note u = unsigned_number_toString[OF canon False rest, of neg]
  show ?thesis
  proof (cases neg)
    case True
    with u False canon show ?thesis
      by (simp add: Number_toString_def parse_number_def)
  next
    case False
    let ?body = "(let s = decimal_digits m; k = int (length s); n = k + e in
               if k \<le> n \<and> n \<le> 21 then s @ replicate (nat (n - k)) (CHR ''0'')
               else if 0 < n \<and> n \<le> 21 then take (nat n) s @ ''.'' @ drop (nat n) s
               else if - 6 < n \<and> n \<le> 0 then ''0.'' @ replicate (nat (- n)) (CHR ''0'') @ s
               else
                 (let ex = (if n - 1 < 0 then ''-'' else ''+'') @ decimal_digits (nat \<bar>n - 1\<bar>)
                  in if k = 1 then s @ ''e'' @ ex
                     else take 1 s @ ''.'' @ drop 1 s @ ''e'' @ ex))"
    have ne: "decimal_digits m \<noteq> []" by (rule decimal_digits_nonempty)
    have hd_body: "?body \<noteq> [] \<and> is_digit (hd ?body)"
      using ne is_digit_hd_decimal_digits[of m]
      by (auto simp: Let_def is_digit_zero hd_append)
    then have "parse_number (?body @ rest) = unsigned_number False (?body @ rest)"
      by (intro parse_number_plain) (auto simp: hd_append)
    with u False \<open>m \<noteq> 0\<close> canon show ?thesis
      by (simp add: Number_toString_def)
  qed
qed

text \<open>Strings.\<close>

lemma radix_digit_hex_digit: "d < 16 \<Longrightarrow> radix_digit 16 (hex_digit d) = Some d"
  by (auto simp: radix_digit_def hex_digit_def Let_def)

lemma radix_digit_zero: "radix_digit 16 (CHR ''0'') = Some 0"
  by (simp add: radix_digit_def)

lemma string_body_escape_char:
  "string_body (escape_char c @ r) = cons_char c (string_body r)"
proof -
  let ?n = "of_char c :: nat"
  consider (q) "c = CHR 0x22" | (b) "c = CHR 0x5C"
    | (ctl) "c \<noteq> CHR 0x22" "c \<noteq> CHR 0x5C" "?n < 32"
    | (plain) "c \<noteq> CHR 0x22" "c \<noteq> CHR 0x5C" "\<not> ?n < 32"
    by blast
  then show ?thesis
  proof cases
    case q
    then show ?thesis by (simp add: escape_char_def unescape_def)
  next
    case b
    then show ?thesis by (simp add: escape_char_def unescape_def)
  next
    case ctl
    have c: "c = char_of ?n" by simp
    consider "?n = 8" | "?n = 12" | "?n = 10" | "?n = 13" | "?n = 9"
      | "?n \<noteq> 8" "?n \<noteq> 12" "?n \<noteq> 10" "?n \<noteq> 13" "?n \<noteq> 9" by blast
    then show ?thesis
    proof cases
      case 6
      have h: "hex4 (CHR ''0'') (CHR ''0'') (hex_digit (?n div 16)) (hex_digit (?n mod 16)) = Some ?n"
        using ctl(3) by (simp add: hex4_def radix_digit_zero radix_digit_hex_digit)
      from ctl 6 h show ?thesis
        by (simp add: escape_char_def Let_def)
    qed (use ctl c in \<open>simp_all add: escape_char_def unescape_def Let_def\<close>)
  next
    case plain
    then show ?thesis by (simp add: escape_char_def Let_def)
  qed
qed

lemma string_body_quoted:
  "string_body (concat (map escape_char s) @ CHR 0x22 # rest) = Some (s, rest)"
  by (induction s) (simp_all add: string_body_escape_char cons_char_def)

lemma QuoteJSONString_parse:
  "QuoteJSONString s @ rest = CHR 0x22 # (concat (map escape_char s) @ CHR 0x22 # rest)"
  by (simp add: QuoteJSONString_def)

lemma skip_ws_start: "s \<noteq> [] \<Longrightarrow> \<not> json_ws (hd s) \<Longrightarrow> skip_ws (s @ r) = s @ r"
  by (cases s) (simp_all add: skip_ws_def)

lemma skip_ws_punct:
  "skip_ws ('','' @ r) = '','' @ r" "skip_ws ('']'' @ r) = '']'' @ r"
  "skip_ws (''}'' @ r) = ''}'' @ r" "skip_ws ('':'' @ r) = '':'' @ r"
  "skip_ws (CHR 0x22 # r) = CHR 0x22 # r"
  by (simp_all add: skip_ws_def json_ws_def)

lemma follows_value_punct:
  "follows_value ('','' @ r)" "follows_value ('']'' @ r)" "follows_value (''}'' @ r)" "follows_value []"
  by (simp_all add: follows_value_def)

lemma parse_value_null: "parse_value (Suc n) (''null'' @ rest) = Some (JNull, rest)"
  by (simp add: skip_ws_def json_ws_def)

lemma parse_value_true: "parse_value (Suc n) (''true'' @ rest) = Some (JBool True, rest)"
  by (simp add: skip_ws_def json_ws_def)

lemma parse_value_false: "parse_value (Suc n) (''false'' @ rest) = Some (JBool False, rest)"
  by (simp add: skip_ws_def json_ws_def)

lemma parse_value_string:
  "parse_value (Suc n) (QuoteJSONString s @ rest) = Some (JStr s, rest)"
  by (simp add: QuoteJSONString_def skip_ws_def json_ws_def string_body_quoted)

lemma Number_toString_start:
  "Number_toString (Fin neg m e) \<noteq> [] \<and>
   (hd (Number_toString (Fin neg m e)) = CHR ''-'' \<or> is_digit (hd (Number_toString (Fin neg m e))))"
proof -
  obtain m' e' where s: "strip_zeros m e = (m', e')" by (cases "strip_zeros m e")
  have ne: "decimal_digits m' \<noteq> []" by (rule decimal_digits_nonempty)
  show ?thesis
    using ne is_digit_hd_decimal_digits[of m']
    by (auto simp: Number_toString_def s Let_def is_digit_zero hd_append)
qed

lemma parse_value_number:
  assumes "strip_zeros m e = (m, e)" "m = 0 \<longrightarrow> \<not> neg" "follows_value rest"
  shows "parse_value (Suc n) (Number_toString (Fin neg m e) @ rest) = Some (JNum (Fin neg m e), rest)"
proof -
  let ?s = "Number_toString (Fin neg m e)"
  from Number_toString_start[of neg m e] obtain c cs where
    s: "?s = c # cs" and c: "c = CHR ''-'' \<or> is_digit c"
    by (cases ?s) auto
  from c have nws: "\<not> json_ws c" by (auto simp: json_ws_def is_digit_def)
  from c have c': "c \<noteq> CHR ''{''" "c \<noteq> CHR ''[''" "c \<noteq> CHR 0x22" "c \<noteq> CHR ''n''"
    "c \<noteq> CHR ''t''" "c \<noteq> CHR ''f''"
    by (auto simp: is_digit_def)
  have "parse_value (Suc n) (c # cs @ rest) = parse_number (c # cs @ rest)"
    using c c' nws by (simp add: skip_ws_def)
  with parse_number_toString[OF assms] s show ?thesis by simp
qed

lemma parse_value_empty_array: "parse_value (Suc n) (''[]'' @ rest) = Some (JArr [], rest)"
  by (simp add: skip_ws_def json_ws_def)

lemma parse_value_empty_object: "parse_value (Suc n) (''{}'' @ rest) = Some (JObj [], rest)"
  by (simp add: skip_ws_def json_ws_def)

lemma parse_value_array:
  assumes "parse_elements n (body @ '']'' @ rest) = Some (xs, rest)" and "starts_value body"
  shows "parse_value (Suc n) (''['' @ body @ '']'' @ rest) = Some (JArr xs, rest)"
proof -
  from assms(2) obtain d ds where b: "body = d # ds" "\<not> json_ws d" "d \<noteq> CHR '']''"
    by (cases body) (auto simp: starts_value_def)
  with assms(1) show ?thesis by (simp add: skip_ws_def json_ws_def)
qed

lemma parse_value_object:
  assumes "parse_members n [] (body @ ''}'' @ rest) = Some (ms, rest)" and "starts_value body"
  shows "parse_value (Suc n) (''{'' @ body @ ''}'' @ rest) = Some (JObj ms, rest)"
proof -
  from assms(2) obtain d ds where b: "body = d # ds" "\<not> json_ws d" "d \<noteq> CHR ''}''"
    by (cases body) (auto simp: starts_value_def)
  with assms(1) show ?thesis by (simp add: skip_ws_def json_ws_def)
qed

lemma parse_elements_last:
  assumes "parse_value n (s @ '']'' @ rest) = Some (v, '']'' @ rest)"
  shows "parse_elements (Suc n) (s @ '']'' @ rest) = Some ([v], rest)"
  using assms by (simp add: skip_ws_def json_ws_def)

lemma parse_elements_more:
  assumes "parse_value n (s @ '','' @ t) = Some (v, '','' @ t)"
    and "parse_elements n t = Some (vs, r)"
  shows "parse_elements (Suc n) (s @ '','' @ t) = Some (v # vs, r)"
  using assms by (simp add: skip_ws_def json_ws_def)

lemma parse_members_last:
  assumes "parse_value n (s @ ''}'' @ rest) = Some (v, ''}'' @ rest)"
  shows "parse_members (Suc n) acc (QuoteJSONString k @ '':'' @ s @ ''}'' @ rest)
           = Some (set_property acc k v, rest)"
  using assms by (simp add: QuoteJSONString_def skip_ws_def json_ws_def string_body_quoted)

lemma parse_members_more:
  assumes "parse_value n (s @ '','' @ t) = Some (v, '','' @ t)"
  shows "parse_members (Suc n) acc (QuoteJSONString k @ '':'' @ s @ '','' @ t)
           = parse_members n (set_property acc k v) t"
  using assms by (simp add: QuoteJSONString_def skip_ws_def json_ws_def string_body_quoted)

declare parse_value.simps [simp del] parse_elements.simps [simp del] parse_members.simps [simp del]

lemma set_property_new: "k \<notin> fst ` set acc \<Longrightarrow> set_property acc k v = acc @ [(k, v)]"
  by (simp add: set_property_def)

lemma join_commas_cons: "ss \<noteq> [] \<Longrightarrow> join_commas (s # ss) = s @ '','' @ join_commas ss"
  by (cases ss) simp_all

lemma starts_value_append: "starts_value s \<Longrightarrow> starts_value (s @ t)"
  by (cases s) (auto simp: starts_value_def)

lemma starts_value_literals:
  "starts_value ''null''" "starts_value ''true''" "starts_value ''false''"
  "starts_value (QuoteJSONString s)" "starts_value (''['' @ t)" "starts_value (''{'' @ t)"
  by (simp_all add: starts_value_def json_ws_def QuoteJSONString_def)

lemma starts_value_number: "starts_value (Number_toString (Fin neg m e))"
  using Number_toString_start[of neg m e]
  by (auto simp: starts_value_def json_ws_def is_digit_def)

lemma SerializeJSONArray_nonempty: "xs \<noteq> [] \<Longrightarrow> SerializeJSONArray xs \<noteq> []"
  by (cases xs) simp_all

lemma json_value_serializes: "json_value v \<Longrightarrow> \<exists>s. SerializeJSONProperty v = Some s"
  by (cases v) simp_all

lemma SerializeJSONObject_nonempty:
  "json_members kvs \<Longrightarrow> kvs \<noteq> [] \<Longrightarrow> SerializeJSONObject kvs \<noteq> []"
proof (cases kvs)
  case Nil
  then show "kvs \<noteq> [] \<Longrightarrow> ?thesis" by simp
next
  case (Cons kv rest)
  assume "json_members kvs"
  with Cons obtain k v where kv: "kv = (k, v)" "json_value v" by (cases kv) auto
  from json_value_serializes[OF kv(2)] Cons kv(1) show ?thesis by auto
qed

lemma roundtrip:
  "json_value v \<Longrightarrow> value_fuel v \<le> n \<Longrightarrow> follows_value rest \<Longrightarrow>
     \<exists>s. SerializeJSONProperty v = Some s \<and> starts_value s \<and>
         parse_value n (s @ rest) = Some (v, rest)"
  "json_values xs \<Longrightarrow> xs \<noteq> [] \<Longrightarrow> values_fuel xs \<le> n \<Longrightarrow>
     starts_value (join_commas (SerializeJSONArray xs)) \<and>
     parse_elements n (join_commas (SerializeJSONArray xs) @ '']'' @ rest) = Some (xs, rest)"
  "json_members kvs \<Longrightarrow> kvs \<noteq> [] \<Longrightarrow> distinct (map fst kvs) \<Longrightarrow>
     fst ` set acc \<inter> fst ` set kvs = {} \<Longrightarrow> members_fuel kvs \<le> n \<Longrightarrow>
     starts_value (join_commas (SerializeJSONObject kvs)) \<and>
     parse_members n acc (join_commas (SerializeJSONObject kvs) @ ''}'' @ rest)
       = Some (acc @ kvs, rest)"
proof (induction v and xs and kvs arbitrary: n rest and n rest and n acc rest
       rule: json_value_json_values_json_members.induct)
  case 1
  then show ?case by simp
next
  case 2
  then obtain n' where "n = Suc n'" by (cases n) auto
  with parse_value_null[of n' rest] show ?case by (simp add: starts_value_literals)
next
  case (3 b)
  then obtain n' where "n = Suc n'" by (cases n) auto
  with parse_value_true[of n' rest] parse_value_false[of n' rest] show ?case
    by (simp add: starts_value_literals)
next
  case (4 num)
  then obtain n' where n: "n = Suc n'" by (cases n) auto
  from 4(1) obtain neg m e where num: "num = Fin neg m e"
    and c: "strip_zeros m e = (m, e)" "m = 0 \<longrightarrow> \<not> neg"
    by (cases num) auto
  from parse_value_number[OF c 4(3), of n'] show ?case
    by (simp add: n num starts_value_number)
next
  case (5 s)
  then obtain n' where "n = Suc n'" by (cases n) auto
  with parse_value_string[of n' s rest] show ?case by (simp add: starts_value_literals)
next
  case (6 xs)
  then obtain n' where n: "n = Suc n'" and f: "values_fuel xs \<le> n'" by (cases n) auto
  show ?case
  proof (cases "xs = []")
    case True
    with parse_value_empty_array[of n' rest] starts_value_literals(5)[of "'']''"] show ?thesis
      by (simp add: n)
  next
    case False
    from 6(1)[OF _ False f, of rest] 6(2)
    have st: "starts_value (join_commas (SerializeJSONArray xs))"
      and p: "parse_elements n' (join_commas (SerializeJSONArray xs) @ '']'' @ rest) = Some (xs, rest)"
      by auto
    from parse_value_array[OF p st]
      starts_value_literals(5)[of "join_commas (SerializeJSONArray xs) @ '']''"]
    show ?thesis by (simp add: n)
  qed
next
  case (7 kvs)
  then obtain n' where n: "n = Suc n'" and f: "members_fuel kvs \<le> n'" by (cases n) auto
  show ?case
  proof (cases "kvs = []")
    case True
    with parse_value_empty_object[of n' rest] starts_value_literals(6)[of "''}''"] show ?thesis
      by (simp add: n)
  next
    case False
    from 7(2) have d: "distinct (map fst kvs)" and m: "json_members kvs" by auto
    from 7(1)[OF m False d _ f, of "[]" rest]
    have st: "starts_value (join_commas (SerializeJSONObject kvs))"
      and p: "parse_members n' [] (join_commas (SerializeJSONObject kvs) @ ''}'' @ rest)
                = Some (kvs, rest)"
      by auto
    from parse_value_object[OF p st]
      starts_value_literals(6)[of "join_commas (SerializeJSONObject kvs) @ ''}''"]
    show ?thesis by (simp add: n)
  qed
next
  case 8
  then show ?case by simp
next
  case (9 x xs)
  from 9(3) have jx: "json_value x" and jxs: "json_values xs" by auto
  from 9(5) obtain n' where n: "n = Suc n'" and fx: "value_fuel x \<le> n'"
    and fxs: "values_fuel xs \<le> n'" by (cases n) auto
  show ?case
  proof (cases "xs = []")
    case True
    from 9(1)[OF jx fx follows_value_punct(2), of rest] obtain s where
      s: "SerializeJSONProperty x = Some s" "starts_value s"
         "parse_value n' (s @ '']'' @ rest) = Some (x, '']'' @ rest)" by auto
    from parse_elements_last[OF s(3)] s(1,2) True show ?thesis by (simp add: n)
  next
    case False
    let ?t = "join_commas (SerializeJSONArray xs) @ '']'' @ rest"
    from 9(1)[OF jx fx follows_value_punct(1), of ?t] obtain s where
      s: "SerializeJSONProperty x = Some s" "starts_value s"
         "parse_value n' (s @ '','' @ ?t) = Some (x, '','' @ ?t)" by auto
    from 9(2)[OF jxs False fxs, of rest]
    have p: "parse_elements n' ?t = Some (xs, rest)" by simp
    from parse_elements_more[OF s(3) p] s(1) False
      starts_value_append[OF s(2), of "'','' @ join_commas (SerializeJSONArray xs)"]
    show ?thesis
      by (simp add: n join_commas_cons SerializeJSONArray_nonempty)
  qed
next
  case 10
  then show ?case by simp
next
  case (11 k v kvs)
  from 11(3) have jv: "json_value v" and jm: "json_members kvs" by auto
  from 11(5) have d: "distinct (map fst kvs)" and knew: "k \<notin> fst ` set kvs" by auto
  from 11(6) have kacc: "k \<notin> fst ` set acc" by auto
  from 11(7) obtain n' where n: "n = Suc n'" and fv: "value_fuel v \<le> n'"
    and fm: "members_fuel kvs \<le> n'" by (cases n) auto
  note sp = set_property_new[OF kacc, of v]
  show ?case
  proof (cases "kvs = []")
    case True
    from 11(1)[OF jv fv follows_value_punct(3), of rest] obtain s where
      s: "SerializeJSONProperty v = Some s" "starts_value s"
         "parse_value n' (s @ ''}'' @ rest) = Some (v, ''}'' @ rest)" by auto
    from parse_members_last[OF s(3), of acc k] s(1) True sp
      starts_value_append[OF starts_value_literals(4)[of k], of "'':'' @ s"]
    show ?thesis by (simp add: n)
  next
    case False
    let ?t = "join_commas (SerializeJSONObject kvs) @ ''}'' @ rest"
    from 11(1)[OF jv fv follows_value_punct(1), of ?t] obtain s where
      s: "SerializeJSONProperty v = Some s" "starts_value s"
         "parse_value n' (s @ '','' @ ?t) = Some (v, '','' @ ?t)" by auto
    have disj: "fst ` set (acc @ [(k, v)]) \<inter> fst ` set kvs = {}"
      using 11(6) knew by auto
    from 11(2)[OF jm False d disj fm, of rest]
    have p: "parse_members n' (acc @ [(k, v)]) ?t = Some ((acc @ [(k, v)]) @ kvs, rest)" by simp
    from parse_members_more[OF s(3), of acc k] p sp s(1) False jm
      starts_value_append[OF starts_value_literals(4)[of k],
        of "'':'' @ s @ '','' @ join_commas (SerializeJSONObject kvs)"]
    show ?thesis
      by (simp add: n join_commas_cons SerializeJSONObject_nonempty)
  qed
qed

lemma fuel_bound:
  "json_value v \<Longrightarrow> SerializeJSONProperty v = Some s \<Longrightarrow> value_fuel v \<le> length s"
  "json_values xs \<Longrightarrow> xs \<noteq> [] \<Longrightarrow>
     values_fuel xs \<le> length (join_commas (SerializeJSONArray xs)) + 1"
  "json_members kvs \<Longrightarrow> kvs \<noteq> [] \<Longrightarrow>
     members_fuel kvs \<le> length (join_commas (SerializeJSONObject kvs)) + 1"
proof (induction v and xs and kvs arbitrary: s and and
       rule: json_value_json_values_json_members.induct)
  case (4 num)
  then obtain neg m e where num: "num = Fin neg m e" by (cases num) auto
  from Number_toString_start[of neg m e] have "1 \<le> length (Number_toString (Fin neg m e))"
    by (cases "Number_toString (Fin neg m e)") auto
  with 4 num show ?case by auto
next
  case (6 xs)
  then show ?case by (cases "xs = []") auto
next
  case (7 kvs)
  then show ?case by (cases "kvs = []") auto
next
  case (9 x xs)
  from 9(3) have jx: "json_value x" and jxs: "json_values xs" by auto
  from json_value_serializes[OF jx] obtain s where s: "SerializeJSONProperty x = Some s" ..
  from 9(1)[OF jx s] have fx: "value_fuel x \<le> length s" .
  show ?case
  proof (cases "xs = []")
    case True
    with fx s show ?thesis by simp
  next
    case False
    from 9(2)[OF jxs False] fx s False show ?thesis
      by (simp add: join_commas_cons SerializeJSONArray_nonempty)
  qed
next
  case (11 k v kvs)
  from 11(3) have jv: "json_value v" and jm: "json_members kvs" by auto
  from json_value_serializes[OF jv] obtain s where s: "SerializeJSONProperty v = Some s" ..
  from 11(1)[OF jv s] have fv: "value_fuel v \<le> length s" .
  show ?case
  proof (cases "kvs = []")
    case True
    with fv s show ?thesis by simp
  next
    case False
    from 11(2)[OF jm False] fv s False jm show ?thesis
      by (simp add: join_commas_cons SerializeJSONObject_nonempty)
  qed
qed (auto simp: QuoteJSONString_def)

lemma JSON_parse_stringify:
  assumes "json_value v"
  shows "\<exists>s. JSON_stringify v = Some s \<and> JSON_parse s = Inr v"
proof -
  from json_value_serializes[OF assms] obtain s where s: "SerializeJSONProperty v = Some s" ..
  from fuel_bound(1)[OF assms s] have "value_fuel v \<le> 2 * length s + 2" by simp
  from roundtrip(1)[OF assms this follows_value_punct(4)] s
  have "parse_value (2 * length s + 2) s = Some (v, [])" by simp
  then have "JSON_parse s = Inr v" by (simp add: JSON_parse_def skip_ws_def)
  with s show ?thesis by (simp add: JSON_stringify_def)
qed

section \<open>Evaluating the handlers\<close>


lemma result_attempt:
  "result (attempt m k) = (case m of Inl e \<Rightarrow> Inl e | Inr v \<Rightarrow> result (k v))"
  by (simp add: attempt_def thrown_def split: sum.splits)

lemma logged_attempt:
  "logged (attempt m k) = (case m of Inl e \<Rightarrow> [] | Inr v \<Rightarrow> logged (k v))"
  by (simp add: attempt_def thrown_def split: sum.splits)

lemma StringToNumber_5000: "StringToNumber ''5000'' = Fin False 5 3"
  by (simp add: StringToNumber_def trim_def is_ws_def StrUnsignedDecimalLiteral_def is_digit_def
      exponent_part_def mk_fin_def digits_val_def digit_val_def strip_zeros.simps)

lemma StringToNumber_00: "StringToNumber ''00'' = Fin False 0 0"
  by (simp add: StringToNumber_def trim_def is_ws_def StrUnsignedDecimalLiteral_def is_digit_def
      exponent_part_def mk_fin_def digits_val_def digit_val_def strip_zeros.simps)

lemma mk_fin_5000: "mk_fin False 5000 0 = Fin False 5 3"
  by (simp add: mk_fin_def strip_zeros.simps)

lemma example_provider_hash: "masterKeySha512Hash example_provider = ''sha512:mk''"
  by (simp add: example_provider_def useEventEmitter_def new_PaydunyaPaymentProvider_def
      example_digest_def example_config_def)

lemma example_provider_emitter: "eventEmitter example_provider = Some (EventEmitter2 0)"
  by (simp add: example_provider_def useEventEmitter_def)

lemma handleWebhook_completed_body:
  "handleWebhook example_provider completed_body =
     \<lparr>result = Inr (),
      emitted =
        [(PAYMENT_SUCCESSFUL,
          \<lparr>type = PAYMENT_SUCCESSFUL,
           paymentMethod = Some WAVE,
           transactionAmount = Fin False 5 3,
           transactionCurrency = JStr ''XOF'',
           transactionId = JStr ''tx-42'',
           transactionReference = JStr ''inv-1'',
           metadata = JObj [(''transaction_id'', JStr ''tx-42'')],
           reason = None,
           paymentProvider = None\<rparr>)],
      logged = []\<rparr>"
  by (simp add: handleWebhook_def completed_body_def own_property_def example_provider_hash
      example_provider_emitter attempt_def completed_with_code_00_def loose_eq_string_def
      bindE_def webhook_event_def emit_def Number_def StringToNumber_5000)

lemma handleWebhook_forged_body:
  "handleWebhook example_provider forged_body =
     \<lparr>result = Inr (), emitted = [], logged = [''Invalid hash in Paydunya webhook body'']\<rparr>"
  by (simp add: handleWebhook_def forged_body_def own_property_def example_provider_hash)

lemma handleWebhook_pending_body:
  "handleWebhook example_provider pending_body = \<lparr>result = Inr (), emitted = [], logged = []\<rparr>"
  by (simp add: handleWebhook_def pending_body_def completed_body_def own_property_def
      example_provider_hash attempt_def completed_with_code_00_def)

lemma handleWebhook_no_customer_body:
  "handleWebhook example_provider no_customer_body = thrown TypeError"
  by (simp add: handleWebhook_def no_customer_body_def own_property_def example_provider_hash
      attempt_def)

lemma handleWebhook_uncorrelated_body:
  "handleWebhook example_provider uncorrelated_body =
     \<lparr>result = Inr (),
      emitted =
        [(PAYMENT_SUCCESSFUL,
          \<lparr>type = PAYMENT_SUCCESSFUL,
           paymentMethod = Some WAVE,
           transactionAmount = Fin False 5 3,
           transactionCurrency = JStr ''XOF'',
           transactionId = JUndefined,
           transactionReference = JStr ''inv-1'',
           metadata = JObj [(''order'', JStr ''A-7'')],
           reason = None,
           paymentProvider = None\<rparr>)],
      logged = []\<rparr>"
  by (simp add: handleWebhook_def uncorrelated_body_def completed_body_def own_property_def
      example_provider_hash example_provider_emitter attempt_def completed_with_code_00_def
      loose_eq_string_def bindE_def webhook_event_def emit_def Number_def StringToNumber_5000)

lemma handleWebhook_empty_id_body:
  "map (\<lambda>(t, ev). (t, transactionId ev)) (emitted (handleWebhook example_provider empty_id_body))
     = [(PAYMENT_SUCCESSFUL, JStr [])]"
  by (simp add: handleWebhook_def empty_id_body_def completed_body_def own_property_def
      example_provider_hash example_provider_emitter attempt_def completed_with_code_00_def
      loose_eq_string_def bindE_def webhook_event_def emit_def Number_def StringToNumber_5000)

section \<open>The Paydunya handler\<close>



lemma paydunya_unverified:
  assumes "own_property body ''hash'' \<noteq> JStr (masterKeySha512Hash p)"
  shows "result (handleWebhook p body) = Inr ()"
    and "emitted (handleWebhook p body) = []"
    and "logged (handleWebhook p body) = [''Missing hash in Paydunya webhook body'']
         \<or> logged (handleWebhook p body) = [''Invalid hash in Paydunya webhook body'']"
  using assms by (auto simp: handleWebhook_def)

section \<open>The Stripe handler\<close>

lemma emitted_after: "emitted (after evs k) = evs @ emitted k"
  by (simp add: after_def)

lemma result_after: "result (after evs k) = result k"
  by (simp add: after_def)

lemma logged_after: "logged (after evs k) = logged k"
  by (simp add: after_def)

lemma stripe_event_fields:
  "type (stripe_event jp t r session tid) = t"
  "paymentMethod (stripe_event jp t r session tid) = Some CREDIT_CARD"
  "transactionId (stripe_event jp t r session tid) = JStr tid"
  "transactionAmount (stripe_event jp t r session tid) =
     ToNumber_primitive (nullable JNum (amount_total session))"
  "transactionCurrency (stripe_event jp t r session tid) = nullable JStr (currency session)"
  by (simp_all add: stripe_event_def)

lemma stripe_unverified:
  assumes "\<not> (\<exists>event. stripe_verified ce p raw opts event)"
  shows "result (stripe_handleWebhook ce jp p raw opts) = Inr None"
    and "emitted (stripe_handleWebhook ce jp p raw opts) = []"
    and "logged (stripe_handleWebhook ce jp p raw opts) \<noteq> []"
  using assms
  by (auto simp: stripe_handleWebhook_def stripe_verified_def warn_null_def
           split: option.splits sum.splits)

lemma stripe_verified_eq:
  assumes "stripe_verified ce p raw opts event"
  shows "stripe_handleWebhook ce jp p raw opts = stripe_dispatch jp p event"
  using assms
  by (auto simp: stripe_handleWebhook_def stripe_verified_def split: option.splits)

lemma stripe_dispatch_outcome:
  shows "\<exists>r. result (stripe_dispatch jp p event) = Inr r"
    and "\<forall>(t, ev) \<in> set (emitted (stripe_dispatch jp p event)).
           type ev = t \<and> paymentMethod ev = Some CREDIT_CARD \<and>
           (\<exists>tid. tid \<noteq> [] \<and> transactionId ev = JStr tid)"
    and "\<forall>ev. result (stripe_dispatch jp p event) = Inr (Some ev) \<longrightarrow>
           paymentMethod ev = Some CREDIT_CARD \<and>
           (\<exists>tid. tid \<noteq> [] \<and> transactionId ev = JStr tid)"
    and "stripe_eventEmitter p \<noteq> None \<longrightarrow>
         result (stripe_dispatch jp p event) =
           Inr (if emitted (stripe_dispatch jp p event) = [] then None
                else Some (snd (last (emitted (stripe_dispatch jp p event)))))"
  by (auto simp: stripe_dispatch_def warn_null_def emitSuccessfulPayment_def Let_def
        result_after emitted_after emit_def stripe_event_fields split: option.splits)


lemma stripe_emitted_fields:
  assumes "(t, ev) \<in> set (emitted (stripe_handleWebhook ce jp p raw opts))"
  shows "type ev = t \<and> paymentMethod ev = Some CREDIT_CARD \<and>
         (\<exists>tid. tid \<noteq> [] \<and> transactionId ev = JStr tid)"
proof (cases "\<exists>event. stripe_verified ce p raw opts event")
  case True
  then obtain event where "stripe_verified ce p raw opts event" ..
  from stripe_dispatch_outcome(2)[of jp p event] assms show ?thesis
    unfolding stripe_verified_eq[OF \<open>stripe_verified ce p raw opts event\<close>] by blast
next
  case False
  from stripe_unverified(2)[OF this] assms show ?thesis by simp
qed

lemma stripe_returned_fields:
  assumes "result (stripe_handleWebhook ce jp p raw opts) = Inr (Some ev)"
  shows "paymentMethod ev = Some CREDIT_CARD \<and>
         (\<exists>tid. tid \<noteq> [] \<and> transactionId ev = JStr tid)"
proof (cases "\<exists>event. stripe_verified ce p raw opts event")
  case True
  then obtain event where "stripe_verified ce p raw opts event" ..
  from stripe_dispatch_outcome(3)[of jp p event] assms show ?thesis
    unfolding stripe_verified_eq[OF \<open>stripe_verified ce p raw opts event\<close>] by blast
next
  case False
  from stripe_unverified(1)[OF this] assms show ?thesis by simp
qed

text \<open>
  With an emitter set, the Stripe handler returns the last event it published, and
  \<open>null\<close> when it published none.
\<close>

lemma stripe_returns_last_emitted:
  assumes "stripe_eventEmitter p \<noteq> None"
  shows "result (stripe_handleWebhook ce jp p raw opts) =
           Inr (if emitted (stripe_handleWebhook ce jp p raw opts) = [] then None
                else Some (snd (last (emitted (stripe_handleWebhook ce jp p raw opts)))))"
proof (cases "\<exists>event. stripe_verified ce p raw opts event")
  case True
  then obtain event where "stripe_verified ce p raw opts event" ..
  from stripe_dispatch_outcome(4)[of p jp event] assms show ?thesis
    unfolding stripe_verified_eq[OF \<open>stripe_verified ce p raw opts event\<close>] by blast
next
  case False
  from stripe_unverified(1,2)[OF this] show ?thesis by simp
qed

lemma stripe_uncorrelated:
  assumes "stripe_verified ce p raw opts event"
    and "metadata_transactionId (data_object event) = None
         \<or> metadata_transactionId (data_object event) = Some []"
  shows "emitted (stripe_handleWebhook ce jp p raw opts) = []"
    and "result (stripe_handleWebhook ce jp p raw opts) = Inr None"
    and "logged (stripe_handleWebhook ce jp p raw opts) \<noteq> []
         \<or> event_type event \<notin> {''checkout.session.completed'',
               ''checkout.session.async_payment_succeeded'',
               ''checkout.session.async_payment_failed''}"
  using assms(2)
  by (auto simp: stripe_verified_eq[OF assms(1)] stripe_dispatch_def warn_null_def
        emitSuccessfulPayment_def Let_def)

lemma example_stripe_verified:
  "stripe_verified (example_constructEvent ev) example_stripe_provider raw example_options ev"
  by (simp add: stripe_verified_def stripe_signature_def example_options_def
      example_stripe_provider_def stripe_useEventEmitter_def new_StripePaymentProvider_def
      example_constructEvent_def)

lemma example_stripe_emitter: "stripe_eventEmitter example_stripe_provider = Some (EventEmitter2 0)"
  by (simp add: example_stripe_provider_def stripe_useEventEmitter_def)

lemma example_session_fields:
  "metadata_transactionId (example_session st) = Some ''tx-42''"
  "amount_total (example_session st) = Some (Fin False 5 3)"
  "currency (example_session st) = Some ''XOF''"
  "payment_status (example_session st) = st"
  by (simp_all add: example_session_def metadata_transactionId_def mk_fin_5000)

section \<open>Supporting lemmas for the claims\<close>

lemma get_not_nullish: "\<not> nullish v \<Longrightarrow> \<exists>x. get v k = Inr x"
  by (cases v) simp_all






lemma paydunya_unrecognised:
  assumes "own_property body ''hash'' = JStr (masterKeySha512Hash p)"
    and "truthy (own_property body ''hash'')"
    and "\<not> nullish (own_property body ''customer'')"
    and "completed_with_code_00 body = Inr False"
    and "own_property body ''status'' \<noteq> JStr ''cancelled''"
    and "own_property body ''status'' \<noteq> JStr ''failed''"
  shows "handleWebhook p body = \<lparr>result = Inr (), emitted = [], logged = []\<rparr>"
proof -
  from get_not_nullish[OF assms(3)] obtain pm where
    pm: "get (own_property body ''customer'') ''payment_method'' = Inr pm" ..
  show ?thesis
    using assms(1,2,4,5,6) by (simp add: handleWebhook_def attempt_def pm Let_def)
qed

lemma stripe_unrecognised:
  assumes "stripe_verified ce p raw opts event"
    and "event_type event \<noteq> ''checkout.session.completed''"
    and "event_type event \<noteq> ''checkout.session.async_payment_succeeded''"
    and "event_type event \<noteq> ''checkout.session.async_payment_failed''"
  shows "stripe_handleWebhook ce jp p raw opts = \<lparr>result = Inr None, emitted = [], logged = []\<rparr>"
  using assms(2-4) by (simp add: stripe_verified_eq[OF assms(1)] stripe_dispatch_def)





lemma map_of_set_property_other:
  "k \<noteq> t \<Longrightarrow> map_of (set_property kvs t x) k = map_of kvs k"
proof -
  assume k: "k \<noteq> t"
  have "map_of (map (\<lambda>(k', v'). if k' = t then (k', x) else (k', v')) kvs) k = map_of kvs k"
    using k by (induction kvs) auto
  moreover have "map_of (kvs @ [(t, x)]) k = map_of kvs k"
    using k by (induction kvs) auto
  ultimately show ?thesis by (simp add: set_property_def del: map_of_append)
qed

lemma map_of_set_property_same: "map_of (set_property kvs t x) t = Some x"
proof -
  have "t \<in> fst ` set kvs \<Longrightarrow>
        map_of (map (\<lambda>(k', v'). if k' = t then (k', x) else (k', v')) kvs) t = Some x"
    by (induction kvs) auto
  moreover have "t \<notin> fst ` set kvs \<Longrightarrow> map_of (kvs @ [(t, x)]) t = Some x"
    by (induction kvs) auto
  ultimately show ?thesis by (simp add: set_property_def del: map_of_append)
qed

lemma map_of_echoed_metadata:
  "map_of kvs k = Some (JStr s) \<Longrightarrow> map_of (echoed_metadata kvs) k = Some s"
proof (induction kvs)
  case Nil
  then show ?case by simp
next
  case (Cons kv kvs)
  obtain k' v' where kv: "kv = (k', v')" by (cases kv)
  show ?case
  proof (cases "k' = k")
    case True
    with Cons.prems kv show ?thesis by (simp add: echoed_metadata_def)
  next
    case False
    with Cons kv have "map_of (echoed_metadata kvs) k = Some s" by simp
    with False kv show ?thesis by (cases v') (simp_all add: echoed_metadata_def)
  qed
qed

lemma map_of_parseMetadata:
  "map_of (parseMetadata parse (Some md)) k =
     map_option (\<lambda>v. case parse v of Inl e \<Rightarrow> JStr v | Inr x \<Rightarrow> x) (map_of md k)"
  by (induction md) (auto simp: parseMetadata_def split: sum.splits)

lemma map_of_checkout_metadata:
  assumes "map_of md k = Some v" and "k \<noteq> ''transactionId''"
  shows "map_of (checkout_metadata stringify (Some md) tid) k =
           Some (case stringify v of None \<Rightarrow> JUndefined | Some s \<Rightarrow> JStr s)"
proof -
  have "map_of (map (\<lambda>(k, v). (k, case stringify v of None \<Rightarrow> JUndefined | Some s \<Rightarrow> JStr s)) md) k
          = Some (case stringify v of None \<Rightarrow> JUndefined | Some s \<Rightarrow> JStr s)"
    using assms(1) by (induction md) (auto split: if_splits)
  with assms(2) show ?thesis
    by (simp add: checkout_metadata_def map_of_set_property_other)
qed

lemma stripe_event_is_silent:
  assumes "result (stripe_handleWebhook ce parse p raw opts) = Inr (Some ev)"
  shows "logged (stripe_handleWebhook ce parse p raw opts) = []"
proof (cases "\<exists>event. stripe_verified ce p raw opts event")
  case True
  then obtain event where v: "stripe_verified ce p raw opts event" ..
  from assms show ?thesis
    unfolding stripe_verified_eq[OF v]
    by (auto simp: stripe_dispatch_def warn_null_def emitSuccessfulPayment_def Let_def
          result_after logged_after split: option.splits if_splits)
next
  case False
  from stripe_unverified(1)[OF this] assms show ?thesis by simp
qed

lemma JSON_parse_example:
  "JSON_parse [CHR ''{'', CHR 0x22, CHR ''a'', CHR 0x22, CHR '':'', CHR ''1'', CHR ''}'']
     = Inr (JObj [(''a'', JNum (Fin False 1 0))])"
  by code_simp

lemma JSON_parse_null: "JSON_parse ''null'' = Inr JNull"
  by code_simp

lemma JSON_parse_plain: "JSON_parse ''tx-1'' = Inl SyntaxError"
  by code_simp

lemma JSON_stringify_NaN: "JSON_stringify (JNum NaN) = Some ''null''"
  by (simp add: JSON_stringify_def)

section \<open>Claims\<close>




text \<open>
  C2, on the Paydunya provider: for a verified, completed body the handler publishes
  PAYMENT_SUCCESSFUL and returns no value, where the claim has it return that event.
\<close>

theorem C2_paydunya_returns_no_event:
  "map fst (emitted (handleWebhook example_provider completed_body)) = [PAYMENT_SUCCESSFUL]
   \<and> result (handleWebhook example_provider completed_body) = Inr ()"
  by (simp add: handleWebhook_completed_body)

text \<open>
  C3, on the Paydunya provider: a verified, completed body whose \<open>custom_data\<close> has no
  \<open>transaction_id\<close> is published as PAYMENT_SUCCESSFUL with \<open>transactionId\<close> \<open>undefined\<close>,
  and one whose \<open>transaction_id\<close> is the empty string is published with the empty string,
  where the claim has no event.
\<close>

theorem C3_paydunya_publishes_uncorrelated_event:
  "get (own_property uncorrelated_body ''custom_data'') ''transaction_id'' = Inr JUndefined
   \<and> map (\<lambda>(t, ev). (t, transactionId ev)) (emitted (handleWebhook example_provider uncorrelated_body))
       = [(PAYMENT_SUCCESSFUL, JUndefined)]
   \<and> get (own_property empty_id_body ''custom_data'') ''transaction_id'' = Inr (JStr [])
   \<and> map (\<lambda>(t, ev). (t, transactionId ev)) (emitted (handleWebhook example_provider empty_id_body))
       = [(PAYMENT_SUCCESSFUL, JStr [])]"
  by (simp add: handleWebhook_uncorrelated_body handleWebhook_empty_id_body)
     (simp add: uncorrelated_body_def empty_id_body_def own_property_def)

text \<open>
  C4: the Paydunya constructor digests the master key once and stores the digest in the
  provider, where \<open>useEventEmitter\<close> leaves it; \<open>handleWebhook\<close> takes no digest function
  and compares the body's \<open>hash\<close> with the stored digest. An event is published only if
  the hash equals the digest; a body whose hash is missing or differs returns without a
  value (the handler's "no event"), publishes nothing and writes one line to the console.
\<close>

theorem C4_shared_secret_hash_gate:
  "snd (new_PaydunyaPaymentProvider sha512_hex cfg) = [masterKey cfg]
   \<and> masterKeySha512Hash (fst (new_PaydunyaPaymentProvider sha512_hex cfg)) =
       sha512_hex (masterKey cfg)
   \<and> masterKeySha512Hash (useEventEmitter em p) = masterKeySha512Hash p
   \<and> (emitted (handleWebhook p body) \<noteq> [] \<longrightarrow>
        own_property body ''hash'' = JStr (masterKeySha512Hash p))
   \<and> (own_property body ''hash'' \<noteq> JStr (masterKeySha512Hash p) \<longrightarrow>
        result (handleWebhook p body) = Inr () \<and>
        emitted (handleWebhook p body) = [] \<and>
        length (logged (handleWebhook p body)) = 1)
   \<and> (map_of body ''hash'' = None \<longrightarrow>
        handleWebhook p body =
          \<lparr>result = Inr (), emitted = [],
           logged = [''Missing hash in Paydunya webhook body'']\<rparr>)"
proof -
  have gate: "own_property body ''hash'' \<noteq> JStr (masterKeySha512Hash p) \<Longrightarrow>
        result (handleWebhook p body) = Inr () \<and>
        emitted (handleWebhook p body) = [] \<and>
        length (logged (handleWebhook p body)) = 1"
    using paydunya_unverified[of body p] by auto
  have missing: "map_of body ''hash'' = None \<Longrightarrow>
        handleWebhook p body =
          \<lparr>result = Inr (), emitted = [],
           logged = [''Missing hash in Paydunya webhook body'']\<rparr>"
    by (simp add: handleWebhook_def own_property_def)
  show ?thesis
    using gate missing
    by (auto simp: new_PaydunyaPaymentProvider_def useEventEmitter_def)
qed

theorem C4_shared_secret_hash_gate_witness:
  "emitted (handleWebhook example_provider completed_body) \<noteq> []
   \<and> own_property completed_body ''hash'' = JStr (masterKeySha512Hash example_provider)
   \<and> own_property forged_body ''hash'' \<noteq> JStr (masterKeySha512Hash example_provider)
   \<and> result (handleWebhook example_provider forged_body) = Inr ()
   \<and> emitted (handleWebhook example_provider forged_body) = []
   \<and> map_of [(''status'', JStr ''completed'')] ''hash'' = (None :: jsval option)
   \<and> emitted (handleWebhook example_provider [(''status'', JStr ''completed'')]) = []"
  using C4_shared_secret_hash_gate[of example_digest example_config "EventEmitter2 0"
          example_provider completed_body]
        C4_shared_secret_hash_gate[of example_digest example_config "EventEmitter2 0"
          example_provider forged_body]
        C4_shared_secret_hash_gate[of example_digest example_config "EventEmitter2 0"
          example_provider "[(''status'', JStr ''completed'')]"]
  by (simp add: handleWebhook_completed_body example_provider_hash forged_body_def
      own_property_def)

text \<open>
  C5: a verified \<open>checkout.session.completed\<close> event whose session has
  \<open>metadata.transactionId = "tx-42"\<close>, \<open>amount_total = 5000\<close> and currency \<open>"XOF"\<close>, handled
  by a provider with an emitter. If \<open>payment_status\<close> is \<open>"paid"\<close>, PAYMENT_INITIATED is
  published, then PAYMENT_SUCCESSFUL, and the PAYMENT_SUCCESSFUL event is returned, with
  transaction id \<open>"tx-42"\<close>, amount 5000 and currency \<open>"XOF"\<close>. Otherwise PAYMENT_INITIATED
  alone is published, and returned.
\<close>

theorem C5_completed_checkout_scenario:
  assumes "stripe_verified constructEvent p rawBody options event"
    and "stripe_eventEmitter p = Some em"
    and "event_type event = ''checkout.session.completed''"
    and "metadata_transactionId (data_object event) = Some ''tx-42''"
    and "amount_total (data_object event) = Some (mk_fin False 5000 0)"
    and "currency (data_object event) = Some ''XOF''"
  shows "\<exists>initiated successful.
           type initiated = PAYMENT_INITIATED \<and> type successful = PAYMENT_SUCCESSFUL \<and>
           transactionId successful = JStr ''tx-42'' \<and>
           transactionAmount successful = mk_fin False 5000 0 \<and>
           transactionCurrency successful = JStr ''XOF'' \<and>
           stripe_handleWebhook constructEvent parse p rawBody options =
             (if payment_status (data_object event) = ''paid''
              then \<lparr>result = Inr (Some successful),
                    emitted = [(PAYMENT_INITIATED, initiated), (PAYMENT_SUCCESSFUL, successful)],
                    logged = []\<rparr>
              else \<lparr>result = Inr (Some initiated),
                    emitted = [(PAYMENT_INITIATED, initiated)],
                    logged = []\<rparr>)"
proof -
  let ?i = "stripe_event parse PAYMENT_INITIATED None (data_object event) ''tx-42''"
  let ?s = "stripe_event parse PAYMENT_SUCCESSFUL None (data_object event) ''tx-42''"
  have "stripe_handleWebhook constructEvent parse p rawBody options =
          (if payment_status (data_object event) = ''paid''
           then \<lparr>result = Inr (Some ?s),
                 emitted = [(PAYMENT_INITIATED, ?i), (PAYMENT_SUCCESSFUL, ?s)], logged = []\<rparr>
           else \<lparr>result = Inr (Some ?i), emitted = [(PAYMENT_INITIATED, ?i)], logged = []\<rparr>)"
    using assms(2-4)
    by (simp add: stripe_verified_eq[OF assms(1)] stripe_dispatch_def Let_def after_def
        emit_def emitSuccessfulPayment_def)
  moreover have "type ?i = PAYMENT_INITIATED" "type ?s = PAYMENT_SUCCESSFUL"
    "transactionId ?s = JStr ''tx-42''"
    by (simp_all add: stripe_event_fields)
  moreover have "transactionAmount ?s = mk_fin False 5000 0"
    using assms(5) by (simp add: stripe_event_fields nullable_def mk_fin_5000)
  moreover have "transactionCurrency ?s = JStr ''XOF''"
    using assms(6) by (simp add: stripe_event_fields nullable_def)
  ultimately show ?thesis by blast
qed

theorem C5_completed_checkout_scenario_witness:
  "(\<exists>i s. stripe_handleWebhook
        (example_constructEvent
           \<lparr>event_type = ''checkout.session.completed'', data_object = example_session ''paid''\<rparr>)
        no_parse example_stripe_provider ''{}'' example_options
      = \<lparr>result = Inr (Some s),
         emitted = [(PAYMENT_INITIATED, i), (PAYMENT_SUCCESSFUL, s)], logged = []\<rparr>)
   \<and> (\<exists>i. stripe_handleWebhook
        (example_constructEvent
           \<lparr>event_type = ''checkout.session.completed'', data_object = example_session ''unpaid''\<rparr>)
        no_parse example_stripe_provider ''{}'' example_options
      = \<lparr>result = Inr (Some i), emitted = [(PAYMENT_INITIATED, i)], logged = []\<rparr>)"
  using C5_completed_checkout_scenario[OF example_stripe_verified example_stripe_emitter,
          of "\<lparr>event_type = ''checkout.session.completed'', data_object = example_session ''paid''\<rparr>"
             no_parse "''{}''"]
        C5_completed_checkout_scenario[OF example_stripe_verified example_stripe_emitter,
          of "\<lparr>event_type = ''checkout.session.completed'', data_object = example_session ''unpaid''\<rparr>"
             no_parse "''{}''"]
  by (simp add: example_session_fields mk_fin_5000) blast

text \<open>
  C6, as stated, fails: a value that JSON cannot represent does not come back (\<open>NaN\<close> is
  encoded as \<open>null\<close> and decodes to \<open>null\<close>), and a metadata entry named \<open>transactionId\<close> is
  overwritten by the transaction id at checkout.
\<close>

theorem C6_metadata_values_lost:
  "map_of (parseMetadata JSON_parse
             (Some (echoed_metadata
                (checkout_metadata JSON_stringify (Some [(''score'', JNum NaN)]) ''tx-1''))))
      ''score'' = Some JNull
   \<and> map_of (parseMetadata JSON_parse
             (Some (echoed_metadata
                (checkout_metadata JSON_stringify
                   (Some [(''transactionId'', JObj [(''a'', JNum (Fin False 1 0))])]) ''tx-1''))))
      ''transactionId'' = Some (JStr ''tx-1'')"
proof -
  have 1: "map_of (checkout_metadata JSON_stringify (Some [(''score'', JNum NaN)]) ''tx-1'') ''score''
             = Some (JStr ''null'')"
    using map_of_checkout_metadata[of "[(''score'', JNum NaN)]" "''score''" "JNum NaN"
            JSON_stringify "''tx-1''"]
    by (simp add: JSON_stringify_NaN)
  have 2: "map_of (checkout_metadata JSON_stringify
                     (Some [(''transactionId'', JObj [(''a'', JNum (Fin False 1 0))])]) ''tx-1'')
             ''transactionId'' = Some (JStr ''tx-1'')"
    by (simp add: checkout_metadata_def map_of_set_property_same)
  show ?thesis
    unfolding map_of_parseMetadata map_of_echoed_metadata[OF 1] map_of_echoed_metadata[OF 2]
    by (simp add: JSON_parse_null JSON_parse_plain)
qed

text \<open>
  C6, amended. Under any key other than \<open>transactionId\<close>, a metadata value that JSON
  represents (\<open>null\<close>, a boolean, a finite number other than the negative zero, a string,
  an array or an object of such values) is encoded by \<open>JSON.stringify\<close> at checkout and
  decoded to the same value by \<open>parseMetadata\<close>; the string \<open>{"a":1}\<close> decodes to the
  object \<open>{a: 1}\<close>. Whatever \<open>JSON.parse\<close> rejects decodes to the identical string, and a
  call that returns an event has written nothing to the console.
\<close>

theorem C6_metadata_round_trip:
  "(map_of md k = Some v \<and> k \<noteq> ''transactionId'' \<and> json_value v \<longrightarrow>
      map_of (parseMetadata JSON_parse
                (Some (echoed_metadata (checkout_metadata JSON_stringify (Some md) tid)))) k
        = Some v)
   \<and> parseMetadata JSON_parse
        (Some [(''k'', [CHR ''{'', CHR 0x22, CHR ''a'', CHR 0x22, CHR '':'', CHR ''1'', CHR ''}''])])
       = [(''k'', JObj [(''a'', JNum (Fin False 1 0))])]
   \<and> (map_of session_md k = Some s \<and> parse s = Inl err \<longrightarrow>
        map_of (parseMetadata parse (Some session_md)) k = Some (JStr s))
   \<and> (result (stripe_handleWebhook constructEvent parse p rawBody options) = Inr (Some ev) \<longrightarrow>
        logged (stripe_handleWebhook constructEvent parse p rawBody options) = [])"
proof -
  have a: "map_of (parseMetadata JSON_parse
                (Some (echoed_metadata (checkout_metadata JSON_stringify (Some md) tid)))) k
        = Some v"
    if h: "map_of md k = Some v" "k \<noteq> ''transactionId''" "json_value v"
  proof -
    from JSON_parse_stringify[OF h(3)] obtain t where
      t: "JSON_stringify v = Some t" "JSON_parse t = Inr v" by blast
    from map_of_checkout_metadata[OF h(1,2), of JSON_stringify tid] t(1)
    have "map_of (checkout_metadata JSON_stringify (Some md) tid) k = Some (JStr t)" by simp
    from map_of_echoed_metadata[OF this] t(2) show ?thesis
      by (simp add: map_of_parseMetadata)
  qed
  have b: "parseMetadata JSON_parse
        (Some [(''k'', [CHR ''{'', CHR 0x22, CHR ''a'', CHR 0x22, CHR '':'', CHR ''1'', CHR ''}''])])
       = [(''k'', JObj [(''a'', JNum (Fin False 1 0))])]"
    by (simp add: parseMetadata_def JSON_parse_example)
  have c: "map_of (parseMetadata parse (Some session_md)) k = Some (JStr s)"
    if "map_of session_md k = Some s" "parse s = Inl err"
    using that by (simp add: map_of_parseMetadata)
  from a b c stripe_event_is_silent show ?thesis by blast
qed

theorem C6_metadata_round_trip_witness:
  "map_of [(''cart'', JObj [(''a'', JNum (Fin False 1 0)), (''tags'', JArr [JStr ''x'', JNull])])]
      ''cart'' = Some (JObj [(''a'', JNum (Fin False 1 0)), (''tags'', JArr [JStr ''x'', JNull])])
   \<and> json_value (JObj [(''a'', JNum (Fin False 1 0)), (''tags'', JArr [JStr ''x'', JNull])])
   \<and> map_of (parseMetadata JSON_parse
               (Some (echoed_metadata
                  (checkout_metadata JSON_stringify
                     (Some [(''cart'', JObj [(''a'', JNum (Fin False 1 0)),
                                            (''tags'', JArr [JStr ''x'', JNull])])])
                     ''tx-42''))))
        ''cart'' = Some (JObj [(''a'', JNum (Fin False 1 0)), (''tags'', JArr [JStr ''x'', JNull])])
   \<and> map_of [(''note'', ''hello world'')] ''note'' = Some ''hello world''
   \<and> JSON_parse ''hello world'' = Inl SyntaxError
   \<and> map_of (parseMetadata JSON_parse (Some [(''note'', ''hello world'')])) ''note''
       = Some (JStr ''hello world'')
   \<and> (case result (stripe_handleWebhook
        (example_constructEvent
           \<lparr>event_type = ''checkout.session.completed'', data_object = example_session ''unpaid''\<rparr>)
        JSON_parse example_stripe_provider ''{}'' example_options) of
        Inr (Some ev) \<Rightarrow> Some (type ev)
      | _ \<Rightarrow> None) = Some PAYMENT_INITIATED
   \<and> logged (stripe_handleWebhook
        (example_constructEvent
           \<lparr>event_type = ''checkout.session.completed'', data_object = example_session ''unpaid''\<rparr>)
        JSON_parse example_stripe_provider ''{}'' example_options) = []"
proof -
  have r: "result (stripe_handleWebhook
        (example_constructEvent
           \<lparr>event_type = ''checkout.session.completed'', data_object = example_session ''unpaid''\<rparr>)
        JSON_parse example_stripe_provider ''{}'' example_options)
      = Inr (Some (stripe_event JSON_parse PAYMENT_INITIATED None (example_session ''unpaid'') ''tx-42''))"
    by (simp add: stripe_verified_eq[OF example_stripe_verified] stripe_dispatch_def
        example_session_fields result_after Let_def)
  have j: "json_value (JObj [(''a'', JNum (Fin False 1 0)), (''tags'', JArr [JStr ''x'', JNull])])"
    by (simp add: strip_zeros.simps)
  have p: "JSON_parse ''hello world'' = Inl SyntaxError" by code_simp
  from C6_metadata_round_trip[of
         "[(''cart'', JObj [(''a'', JNum (Fin False 1 0)), (''tags'', JArr [JStr ''x'', JNull])])]"
         "''cart''" "JObj [(''a'', JNum (Fin False 1 0)), (''tags'', JArr [JStr ''x'', JNull])]"
         "''tx-42''"]
       C6_metadata_round_trip[of "[]" "''note''" JNull "''tx-42''" "[(''note'', ''hello world'')]"
         "''hello world''" JSON_parse SyntaxError
         "example_constructEvent
            \<lparr>event_type = ''checkout.session.completed'', data_object = example_session ''unpaid''\<rparr>"
         example_stripe_provider "''{}''" example_options
         "stripe_event JSON_parse PAYMENT_INITIATED None (example_session ''unpaid'') ''tx-42''"]
       j p r
  show ?thesis by (simp add: stripe_event_fields)
qed

text \<open>
  C7, as stated, fails on the Paydunya handler: it reads \<open>body.customer.payment_method\<close>
  before it looks at the status, so a verified body with an unknown status and no
  \<open>customer\<close> ends in a \<open>TypeError\<close>, not in a return.
\<close>

theorem C7_paydunya_unknown_status_throws:
  "own_property no_customer_body ''hash'' = JStr (masterKeySha512Hash example_provider)
   \<and> own_property no_customer_body ''status'' = JStr ''pending''
   \<and> result (handleWebhook example_provider no_customer_body) = Inl TypeError"
  by (simp add: handleWebhook_no_customer_body thrown_def example_provider_hash)
     (simp add: no_customer_body_def own_property_def)

text \<open>
  C7, amended: a verified Stripe event of a type other than the three checkout types
  returns \<open>null\<close>, publishes nothing and logs nothing. A Paydunya body that passes the hash
  check and has a \<open>customer\<close> (any value but \<open>undefined\<close> and \<open>null\<close>) returns without a
  value, publishes nothing and logs nothing when its status is neither \<open>cancelled\<close> nor
  \<open>failed\<close> and the test \<open>status === "completed" && response_code == "00"\<close> is false.
\<close>

theorem C7_unrecognised_status_gives_no_event:
  "(stripe_verified constructEvent sp rawBody options event \<and>
    event_type event \<noteq> ''checkout.session.completed'' \<and>
    event_type event \<noteq> ''checkout.session.async_payment_succeeded'' \<and>
    event_type event \<noteq> ''checkout.session.async_payment_failed''
    \<longrightarrow> stripe_handleWebhook constructEvent parse sp rawBody options =
          \<lparr>result = Inr None, emitted = [], logged = []\<rparr>)
   \<and> (own_property body ''hash'' = JStr (masterKeySha512Hash p) \<and>
       truthy (own_property body ''hash'') \<and>
       \<not> nullish (own_property body ''customer'') \<and>
       completed_with_code_00 body = Inr False \<and>
       own_property body ''status'' \<noteq> JStr ''cancelled'' \<and>
       own_property body ''status'' \<noteq> JStr ''failed''
       \<longrightarrow> handleWebhook p body = \<lparr>result = Inr (), emitted = [], logged = []\<rparr>)"
  using stripe_unrecognised paydunya_unrecognised by blast

theorem C7_unrecognised_status_gives_no_event_witness:
  "stripe_verified
     (example_constructEvent \<lparr>event_type = ''customer.created'', data_object = example_session ''paid''\<rparr>)
     example_stripe_provider ''{}'' example_options
     \<lparr>event_type = ''customer.created'', data_object = example_session ''paid''\<rparr>
   \<and> stripe_handleWebhook
       (example_constructEvent \<lparr>event_type = ''customer.created'', data_object = example_session ''paid''\<rparr>)
       no_parse example_stripe_provider ''{}'' example_options
     = \<lparr>result = Inr None, emitted = [], logged = []\<rparr>
   \<and> own_property pending_body ''hash'' = JStr (masterKeySha512Hash example_provider)
   \<and> \<not> nullish (own_property pending_body ''customer'')
   \<and> completed_with_code_00 pending_body = Inr False
   \<and> own_property pending_body ''status'' = JStr ''pending''
   \<and> handleWebhook example_provider pending_body = \<lparr>result = Inr (), emitted = [], logged = []\<rparr>"
  using C7_unrecognised_status_gives_no_event[of
          "example_constructEvent \<lparr>event_type = ''customer.created'', data_object = example_session ''paid''\<rparr>"
          example_stripe_provider "''{}''" example_options
          "\<lparr>event_type = ''customer.created'', data_object = example_session ''paid''\<rparr>"
          no_parse pending_body example_provider]
        example_stripe_verified[of
          "\<lparr>event_type = ''customer.created'', data_object = example_session ''paid''\<rparr>" "''{}''"]
  by (simp add: example_provider_hash pending_body_def completed_body_def own_property_def
      completed_with_code_00_def)

text \<open>
  C8: for every input, the Stripe provider's checkoutMobileMoney, checkoutCreditCard and
  payoutMobileMoney each raise a PaymentError tagged UNSUPPORTED_PAYMENT_METHOD; none of
  them returns a value.
\<close>

theorem C8_stripe_unsupported_operations_throw:
  "(\<exists>msg. (checkoutMobileMoney mm :: error + 'r) =
            Inl (PaymentError msg (Some UNSUPPORTED_PAYMENT_METHOD)))
   \<and> (\<exists>msg. (checkoutCreditCard cc :: error + 'r) =
            Inl (PaymentError msg (Some UNSUPPORTED_PAYMENT_METHOD)))
   \<and> (\<exists>msg. (payoutMobileMoney po :: error + 'r) =
            Inl (PaymentError msg (Some UNSUPPORTED_PAYMENT_METHOD)))"
  by (simp add: checkoutMobileMoney_def checkoutCreditCard_def payoutMobileMoney_def)



text \<open>
  C10: every event the Stripe handler publishes, and every event it returns, has
  \<open>paymentMethod = CREDIT_CARD\<close>: the three literals write the constant, and the handler
  reads nothing of the session that tells how it was paid. The field's type admits
  \<open>null\<close> (\<open>None\<close>), which the Stripe handler never writes.
\<close>

theorem C10_stripe_events_are_credit_card:
  "(\<forall>(t, ev) \<in> set (emitted (stripe_handleWebhook constructEvent parse p rawBody options)).
      paymentMethod ev = Some CREDIT_CARD)
   \<and> (\<forall>ev. result (stripe_handleWebhook constructEvent parse p rawBody options) = Inr (Some ev)
         \<longrightarrow> paymentMethod ev = Some CREDIT_CARD)"
  using stripe_emitted_fields stripe_returned_fields by blast

theorem C10_stripe_events_are_credit_card_witness:
  "map (\<lambda>(t, ev). (t, paymentMethod ev))
     (emitted (stripe_handleWebhook
        (example_constructEvent
           \<lparr>event_type = ''checkout.session.completed'', data_object = example_session ''paid''\<rparr>)
        no_parse example_stripe_provider ''{}'' example_options))
   = [(PAYMENT_INITIATED, Some CREDIT_CARD), (PAYMENT_SUCCESSFUL, Some CREDIT_CARD)]
   \<and> (case result (stripe_handleWebhook
        (example_constructEvent
           \<lparr>event_type = ''checkout.session.completed'', data_object = example_session ''paid''\<rparr>)
        no_parse example_stripe_provider ''{}'' example_options) of
        Inr (Some ev) \<Rightarrow> paymentMethod ev
      | _ \<Rightarrow> None) = Some CREDIT_CARD"
  using C10_stripe_events_are_credit_card[of
          "example_constructEvent
             \<lparr>event_type = ''checkout.session.completed'', data_object = example_session ''paid''\<rparr>"
          no_parse example_stripe_provider "''{}''" example_options]
  by (simp add: stripe_verified_eq[OF example_stripe_verified] stripe_dispatch_def
      example_session_fields emitted_after result_after emit_def example_stripe_emitter
      emitSuccessfulPayment_def stripe_event_fields Let_def)

end
